theory Spec2Isabelle
  imports Main
begin

section \<open>Data model of the crawl server (main.py)\<close>

text \<open>
  The values a request body can carry in a strategy-args dictionary, and the dictionary
  itself: keyword arguments are a finite map from names to values.
\<close>

datatype pyval = PyNone | PyBool bool | PyInt int | PyStr string

type_synonym kwargs = "string \<rightharpoonup> pyval"

text \<open>
  Exceptions as values. \<open>HTTPException\<close> carries the status code and the detail text that
  the source passes. Any other exception is \<open>Raised k n\<close>: \<open>n\<close> is the name of its
  class, kept for reading, and \<open>k\<close> is all that the handler and asyncio can tell about
  that class: whether the exception is an instance of ImportError (an \<open>except\<close> clause
  catches the instances of subclasses too, ModuleNotFoundError for one), an instance of
  AttributeError, an instance of the class StopIteration itself, or none of these. No
  class is in two of the three families. An instance of a proper subclass of
  StopIteration is not a value of the model.
\<close>

datatype exc_class = ImportErrorClass | AttributeErrorClass | StopIterationClass | OtherClass

datatype exn =
    HTTPException nat string
  | Raised exc_class string

fun is_import_error :: "exn \<Rightarrow> bool" where
  "is_import_error (Raised ImportErrorClass _) = True"
| "is_import_error _ = False"

fun is_attribute_error :: "exn \<Rightarrow> bool" where
  "is_attribute_error (Raised AttributeErrorClass _) = True"
| "is_attribute_error _ = False"

fun is_stop_iteration :: "exn \<Rightarrow> bool" where
  "is_stop_iteration (Raised StopIterationClass _) = True"
| "is_stop_iteration _ = False"

definition ModuleNotFoundError :: exn where
  "ModuleNotFoundError = Raised ImportErrorClass ''ModuleNotFoundError''"

definition AttributeError :: exn where
  "AttributeError = Raised AttributeErrorClass ''AttributeError''"

definition StopIteration :: exn where
  "StopIteration = Raised StopIterationClass ''StopIteration''"

definition TypeError :: exn where
  "TypeError = Raised OtherClass ''TypeError''"

definition ValueError :: exn where
  "ValueError = Raised OtherClass ''ValueError''"

definition RuntimeError :: exn where
  "RuntimeError = Raised OtherClass ''RuntimeError''"

text \<open>The pydantic model \<open>CrawlRequest\<close>, field by field; \<open>Optional\<close> fields are options.\<close>

record crawl_request =
  urls :: "string list"
  include_raw_html :: "bool option"
  bypass_cache :: bool
  extract_blocks :: bool
  word_count_threshold :: "int option"
  extraction_strategy :: "string option"
  extraction_strategy_args :: "kwargs option"
  chunking_strategy :: "string option"
  chunking_strategy_args :: "kwargs option"
  css_selector :: "string option"
  verbose :: "bool option"

text \<open>
  Modelled from the spec: the result type \<open>CrawlResult\<close> of the crawler engine (package
  crawl4ai, outside main.py). The spec lists extracted blocks, chunked segments, optional
  raw content and an embedded success indication; main.py itself only writes the field
  \<open>html\<close>.
\<close>

record crawl_result =
  result_url :: string
  html :: "string option"
  extracted_blocks :: "string list"
  chunked_segments :: "string list"
  success :: bool

text \<open>
  The seven positional arguments that one job passes to \<open>get_crawler().run\<close>; the type
  \<open>'h\<close> is the type of strategy objects.
\<close>

record 'h run_args =
  arg_url :: string
  arg_word_count_threshold :: "int option"
  arg_extraction_strategy :: 'h
  arg_chunking_strategy :: 'h
  arg_bypass_cache :: bool
  arg_css_selector :: "string option"
  arg_verbose :: "bool option"

text \<open>
  What lies outside main.py is a parameter of the model: the modules that
  \<open>importlib.import_module\<close> can find, each a map from attribute names to what calling
  that attribute with keyword arguments does (a strategy object, or an exception), and
  the engine's \<open>run\<close>, which for the job at a given position of the batch and its
  arguments returns a result or raises.
\<close>

type_synonym 'h strategy_class = "kwargs \<Rightarrow> exn + 'h"

type_synonym 'h pymodule = "string \<rightharpoonup> 'h strategy_class"

record 'h env =
  modules :: "string \<rightharpoonup> 'h pymodule"
  crawler_run :: "nat \<Rightarrow> 'h run_args \<Rightarrow> exn + crawl_result"

text \<open>
  The observable effects of one request, in the order the handler performs them: the
  increment and the decrement of the counter, each call of a strategy class, and each job
  handed to the executor.
\<close>

datatype 'h event =
    EvIncr
  | EvDecr
  | EvConstruct string string kwargs
  | EvSubmit nat "'h run_args"

fun is_decr :: "'h event \<Rightarrow> bool" where
  "is_decr EvDecr = True"
| "is_decr _ = False"

fun is_incr :: "'h event \<Rightarrow> bool" where
  "is_incr EvIncr = True"
| "is_incr _ = False"

fun is_submit :: "'h event \<Rightarrow> bool" where
  "is_submit (EvSubmit _ _) = True"
| "is_submit _ = False"

fun is_construct :: "'h event \<Rightarrow> bool" where
  "is_construct (EvConstruct _ _ _) = True"
| "is_construct _ = False"

text \<open>The jobs handed to the executor and the strategy classes called, read off a trace.\<close>

fun submitted_jobs :: "'h event list \<Rightarrow> (nat \<times> 'h run_args) list" where
  "submitted_jobs [] = []"
| "submitted_jobs (EvSubmit i a # tr) = (i, a) # submitted_jobs tr"
| "submitted_jobs (_ # tr) = submitted_jobs tr"

fun constructed :: "'h event list \<Rightarrow> (string \<times> string \<times> kwargs) list" where
  "constructed [] = []"
| "constructed (EvConstruct m c kw # tr) = (m, c, kw) # constructed tr"
| "constructed (_ # tr) = constructed tr"

section \<open>The admission counter\<close>

definition MAX_CONCURRENT_REQUESTS :: int where
  "MAX_CONCURRENT_REQUESTS = 10"

record server_state =
  current_requests :: int

text \<open>
  Lines 101-104: the body of the first \<open>async with lock\<close>. It contains no await, so it
  is one step.
\<close>

definition try_admit :: "server_state \<Rightarrow> (exn + unit) \<times> server_state" where
  "try_admit s =
     (if current_requests s \<ge> MAX_CONCURRENT_REQUESTS
      then (Inl (HTTPException 429 ''Too many requests - please try again later.''), s)
      else (Inr (), s\<lparr>current_requests := current_requests s + 1\<rparr>))"

text \<open>Lines 141-142: the body of the \<open>finally\<close> clause.\<close>

definition release :: "server_state \<Rightarrow> server_state" where
  "release s = s\<lparr>current_requests := current_requests s - 1\<rparr>"

section \<open>Strategy resolution\<close>

definition str_opt :: "string option \<Rightarrow> string" where
  "str_opt x = (case x of None \<Rightarrow> ''None'' | Some s \<Rightarrow> s)"

text \<open>
  Lines 87-89: the body of the \<open>try\<close> in \<open>import_strategy\<close>. A module that cannot
  be imported raises ModuleNotFoundError, a missing attribute raises AttributeError, and
  \<open>getattr\<close> with \<open>None\<close> for a name raises TypeError.
\<close>

definition import_strategy_try ::
  "'h env \<Rightarrow> string \<Rightarrow> string option \<Rightarrow> kwargs \<Rightarrow> (exn + 'h) \<times> 'h event list" where
  "import_strategy_try e module_name class_name kw =
     (case modules e module_name of
        None \<Rightarrow> (Inl ModuleNotFoundError, [])
      | Some m \<Rightarrow>
          (case class_name of
             None \<Rightarrow> (Inl TypeError, [])
           | Some cn \<Rightarrow>
               (case m cn of
                  None \<Rightarrow> (Inl AttributeError, [])
                | Some strategy_class \<Rightarrow>
                    (strategy_class kw, [EvConstruct module_name cn kw]))))"

text \<open>
  Lines 85-95: the two handlers, tried in this order, turn every instance of ImportError and
  every instance of AttributeError that the body raises, the constructor's own included,
  into status 400. Anything else passes.
\<close>

definition import_strategy ::
  "'h env \<Rightarrow> string \<Rightarrow> string option \<Rightarrow> kwargs \<Rightarrow> (exn + 'h) \<times> 'h event list" where
  "import_strategy e module_name class_name kw =
     (case import_strategy_try e module_name class_name kw of
        (Inl x, tr) \<Rightarrow>
          (if is_import_error x
           then (Inl (HTTPException 400 (''Module '' @ module_name @ '' not found.'')), tr)
           else if is_attribute_error x
           then (Inl (HTTPException 400
                   (''Class '' @ str_opt class_name @ '' not found in '' @ module_name @ ''.'')),
                 tr)
           else (Inl x, tr))
      | (Inr h, tr) \<Rightarrow> (Inr h, tr))"

text \<open>
  The call sites of lines 111 and 112 spread the args dictionary as keyword arguments of
  \<open>import_strategy\<close>, whose first two parameters are named \<open>module_name\<close> and
  \<open>class_name\<close>: a dictionary holding one of these keys makes the call itself raise
  TypeError, before the function body runs.
\<close>

definition call_import_strategy ::
  "'h env \<Rightarrow> string \<Rightarrow> string option \<Rightarrow> kwargs \<Rightarrow> (exn + 'h) \<times> 'h event list" where
  "call_import_strategy e module_name class_name kw =
     (if kw ''module_name'' \<noteq> None \<or> kw ''class_name'' \<noteq> None
      then (Inl TypeError, [])
      else import_strategy e module_name class_name kw)"

text \<open>A name is registered in a namespace when the module exists and has that attribute.\<close>

definition registered :: "'h env \<Rightarrow> string \<Rightarrow> string \<Rightarrow> bool" where
  "registered e module_name class_name =
     (case modules e module_name of None \<Rightarrow> False | Some m \<Rightarrow> m class_name \<noteq> None)"

text \<open>
  The installation in which every class, whenever it is called without \<open>verbose\<close> being
  \<open>True\<close> among its keyword arguments, does what \<open>d\<close> says instead of what it does
  in \<open>e\<close>. It serves to state that no such call is ever made.
\<close>

definition replace_quiet :: "(kwargs \<Rightarrow> exn + 'h) \<Rightarrow> 'h env \<Rightarrow> 'h env" where
  "replace_quiet d e =
     e\<lparr>modules :=
         (\<lambda>module_name.
            map_option
              (\<lambda>m class_name.
                 map_option
                   (\<lambda>strategy_class kw.
                      if kw ''verbose'' = Some (PyBool True) then strategy_class kw else d kw)
                   (m class_name))
              (modules e module_name))\<rparr>"

section \<open>Fan-out, fan-in and result shaping\<close>

definition job_args :: "crawl_request \<Rightarrow> 'h \<Rightarrow> 'h \<Rightarrow> string \<Rightarrow> 'h run_args" where
  "job_args r es cs u =
     \<lparr>arg_url = u,
      arg_word_count_threshold = word_count_threshold r,
      arg_extraction_strategy = es,
      arg_chunking_strategy = cs,
      arg_bypass_cache = bypass_cache r,
      arg_css_selector = css_selector r,
      arg_verbose = verbose r\<rparr>"

text \<open>Lines 118-131: one job per element of \<open>urls\<close>, in the order of the list.\<close>

definition jobs :: "crawl_request \<Rightarrow> 'h \<Rightarrow> 'h \<Rightarrow> (nat \<times> 'h run_args) list" where
  "jobs r es cs = enumerate 0 (map (job_args r es cs) (urls r))"

definition job_outcomes ::
  "'h env \<Rightarrow> crawl_request \<Rightarrow> 'h \<Rightarrow> 'h \<Rightarrow> (exn + crawl_result) list" where
  "job_outcomes e r es cs = map (\<lambda>(i, a). crawler_run e i a) (jobs r es cs)"

text \<open>
  Line 132: awaiting \<open>asyncio.gather\<close> without \<open>return_exceptions\<close> over the futures
  of \<open>run_in_executor\<close>. The completion order is the parameter \<open>sched\<close>, a list of job
  positions; a job that the list does not name completes after the named ones, in the
  order of its position. A future completes with the result or the exception of its job,
  except that asyncio refuses to store a StopIteration in a future: the future of a job
  that raises StopIteration stays pending for ever. The await ends with the first
  exception that a future completes with, or with the list of results in the order of the
  awaitables once every future has completed; so it never ends (the value \<open>None\<close>) when
  some job raises StopIteration and no job raises anything else.
\<close>

fun first_exception :: "nat list \<Rightarrow> (exn + 'a) list \<Rightarrow> exn option" where
  "first_exception [] outs = None"
| "first_exception (i # is) outs =
     (if i < length outs
      then (case outs ! i of
              Inl x \<Rightarrow> if is_stop_iteration x then first_exception is outs else Some x
            | Inr _ \<Rightarrow> first_exception is outs)
      else first_exception is outs)"

fun results_of :: "(exn + 'a) list \<Rightarrow> 'a list" where
  "results_of [] = []"
| "results_of (Inr x # outs) = x # results_of outs"
| "results_of (Inl _ # outs) = results_of outs"

definition gather :: "nat list \<Rightarrow> (exn + 'a) list \<Rightarrow> (exn + 'a list) option" where
  "gather sched outs =
     (case first_exception (sched @ [0..<length outs]) outs of
        Some x \<Rightarrow> Some (Inl x)
      | None \<Rightarrow> if list_ex isl outs then None else Some (Inr (results_of outs)))"

text \<open>Lines 135-137.\<close>

definition strip_html :: "bool option \<Rightarrow> crawl_result list \<Rightarrow> crawl_result list" where
  "strip_html include_raw results =
     (if include_raw \<noteq> Some True
      then map (\<lambda>result. result\<lparr>html := None\<rparr>) results
      else results)"

text \<open>Lines 116-139; the outcome \<open>None\<close> is the await that never ends.\<close>

definition dispatch ::
  "'h env \<Rightarrow> nat list \<Rightarrow> crawl_request \<Rightarrow> 'h \<Rightarrow> 'h
     \<Rightarrow> (exn + crawl_result list) option \<times> 'h event list" where
  "dispatch e sched r es cs =
     ((case gather sched (job_outcomes e r es cs) of
         None \<Rightarrow> None
       | Some (Inl x) \<Rightarrow> Some (Inl x)
       | Some (Inr results) \<Rightarrow> Some (Inr (strip_html (include_raw_html r) results))),
      map (\<lambda>(i, a). EvSubmit i a) (jobs r es cs))"

section \<open>The handler of POST /crawl\<close>

definition extraction_module :: string where
  "extraction_module = ''crawl4ai.extraction_strategy''"

definition chunking_module :: string where
  "chunking_module = ''crawl4ai.chunking_strategy''"

text \<open>Lines 108 and 109: the item assignment, on a dictionary or on \<open>None\<close>.\<close>

definition set_verbose :: "kwargs option \<Rightarrow> exn + kwargs" where
  "set_verbose a =
     (case a of
        None \<Rightarrow> Inl TypeError
      | Some d \<Rightarrow> Inr (d(''verbose'' \<mapsto> PyBool True)))"

text \<open>Lines 111-139, once both assignments are done.\<close>

definition resolve_and_dispatch ::
  "'h env \<Rightarrow> nat list \<Rightarrow> crawl_request \<Rightarrow> kwargs \<Rightarrow> kwargs
     \<Rightarrow> (exn + crawl_result list) option \<times> 'h event list" where
  "resolve_and_dispatch e sched r ea ca =
     (case call_import_strategy e extraction_module (extraction_strategy r) ea of
        (Inl x, t1) \<Rightarrow> (Some (Inl x), t1)
      | (Inr es, t1) \<Rightarrow>
          (case call_import_strategy e chunking_module (chunking_strategy r) ca of
             (Inl x, t2) \<Rightarrow> (Some (Inl x), t1 @ t2)
           | (Inr cs, t2) \<Rightarrow>
               (case dispatch e sched r es cs of
                  (out, t3) \<Rightarrow> (out, t1 @ t2 @ t3))))"

text \<open>
  Lines 107-139: the body of the \<open>try\<close>. It returns the outcome (\<open>None\<close> when the
  body never ends), the request object as the body leaves it, and the effects.
\<close>

definition crawl_body ::
  "'h env \<Rightarrow> nat list \<Rightarrow> crawl_request
     \<Rightarrow> (exn + crawl_result list) option \<times> crawl_request \<times> 'h event list" where
  "crawl_body e sched r =
     (case set_verbose (extraction_strategy_args r) of
        Inl x \<Rightarrow> (Some (Inl x), r, [])
      | Inr ea \<Rightarrow>
          (let r1 = r\<lparr>extraction_strategy_args := Some ea\<rparr> in
           case set_verbose (chunking_strategy_args r1) of
             Inl x \<Rightarrow> (Some (Inl x), r1, [])
           | Inr ca \<Rightarrow>
               (let r2 = r1\<lparr>chunking_strategy_args := Some ca\<rparr> in
                case resolve_and_dispatch e sched r2 ea ca of
                  (out, tr) \<Rightarrow> (out, r2, tr))))"

text \<open>
  \<open>crawl_urls\<close> is a coroutine: a StopIteration that is about to leave its frame is
  replaced by a RuntimeError.
\<close>

definition leave_coroutine :: "exn + 'a \<Rightarrow> exn + 'a" where
  "leave_coroutine out =
     (case out of
        Inl x \<Rightarrow> if is_stop_iteration x then Inl RuntimeError else Inl x
      | Inr v \<Rightarrow> Inr v)"

text \<open>
  Lines 98-142: admission, then the body under \<open>try\<close>, then the \<open>finally\<close> clause. A
  rejected request raises inside the first critical section, before the \<open>try\<close> is
  entered. When the body never ends, the \<open>finally\<close> clause is never reached: the outcome
  is \<open>None\<close>, and the state and the effects are those at the await.
\<close>

definition crawl_urls ::
  "'h env \<Rightarrow> nat list \<Rightarrow> server_state \<Rightarrow> crawl_request
     \<Rightarrow> (exn + crawl_result list) option \<times> crawl_request \<times> server_state
       \<times> 'h event list" where
  "crawl_urls e sched s r =
     (case try_admit s of
        (Inl x, s1) \<Rightarrow> (Some (leave_coroutine (Inl x)), r, s1, [])
      | (Inr _, s1) \<Rightarrow>
          (case crawl_body e sched r of
             (None, r', tr) \<Rightarrow> (None, r', s1, [EvIncr] @ tr)
           | (Some out, r', tr) \<Rightarrow>
               (Some (leave_coroutine out), r', release s1, [EvIncr] @ tr @ [EvDecr])))"

section \<open>Concurrent requests\<close>

text \<open>
  Several handlers run on one event loop. Each of the two critical sections is one step,
  since neither contains an await; between them a handler is inside its \<open>try\<close>. A
  handler that was rejected never enters the \<open>try\<close>, so it never reaches the
  \<open>finally\<close> clause; a handler whose body never ends stays inside its \<open>try\<close>.
\<close>

datatype phase = Waiting | Running | Finished | Rejected

record system =
  globals :: server_state
  phases :: "phase list"

datatype action = Admit nat | Release nat

fun sys_step :: "system \<Rightarrow> action \<Rightarrow> system option" where
  "sys_step sy (Admit i) =
     (if i < length (phases sy) \<and> phases sy ! i = Waiting
      then (case try_admit (globals sy) of
              (Inl _, g) \<Rightarrow> Some \<lparr>globals = g, phases = (phases sy)[i := Rejected]\<rparr>
            | (Inr _, g) \<Rightarrow> Some \<lparr>globals = g, phases = (phases sy)[i := Running]\<rparr>)
      else None)"
| "sys_step sy (Release i) =
     (if i < length (phases sy) \<and> phases sy ! i = Running
      then Some \<lparr>globals = release (globals sy), phases = (phases sy)[i := Finished]\<rparr>
      else None)"

fun exec :: "system \<Rightarrow> action list \<Rightarrow> system option" where
  "exec sy [] = Some sy"
| "exec sy (a # as) = (case sys_step sy a of None \<Rightarrow> None | Some sy' \<Rightarrow> exec sy' as)"

text \<open>Line 24: the counter starts at zero; \<open>n\<close> requests are waiting to be handled.\<close>

definition init :: "nat \<Rightarrow> system" where
  "init n = \<lparr>globals = \<lparr>current_requests = 0\<rparr>, phases = replicate n Waiting\<rparr>"

definition in_flight :: "system \<Rightarrow> nat" where
  "in_flight sy = length (filter (\<lambda>p. p = Running) (phases sy))"

definition counter_ok :: "system \<Rightarrow> bool" where
  "counter_ok sy \<longleftrightarrow>
     current_requests (globals sy) = int (in_flight sy)
     \<and> current_requests (globals sy) \<le> MAX_CONCURRENT_REQUESTS"

section \<open>Concrete environments for evaluation\<close>

text \<open>
  A small installation: strategy objects are strings; one extraction class and one
  chunking class accept every keyword argument, a second extraction class needs an
  \<open>api_token\<close> and raises ValueError without it, a third has no parameter
  \<open>top_k\<close> and raises TypeError when given one, and a fourth imports a package that
  is not installed, so that its constructor raises ModuleNotFoundError. The engine raises
  ValueError for the URL \<open>bad\<close> and StopIteration for the URL \<open>stop\<close>, and
  returns a result for every other URL, with \<open>success\<close> false for the URL
  \<open>down\<close>.
\<close>

definition example_extraction :: "string pymodule" where
  "example_extraction =
     [''NoExtractionStrategy'' \<mapsto> (\<lambda>kw. Inr ''no-extraction''),
      ''LLMExtractionStrategy'' \<mapsto>
        (\<lambda>kw. if kw ''api_token'' = None then Inl ValueError else Inr ''llm''),
      ''TopicExtractionStrategy'' \<mapsto>
        (\<lambda>kw. if kw ''top_k'' = None then Inr ''topic'' else Inl TypeError),
      ''CosineStrategy'' \<mapsto> (\<lambda>kw. Inl ModuleNotFoundError)]"

definition example_chunking :: "string pymodule" where
  "example_chunking = [''RegexChunking'' \<mapsto> (\<lambda>kw. Inr ''regex'')]"

definition example_run :: "nat \<Rightarrow> string run_args \<Rightarrow> exn + crawl_result" where
  "example_run i a =
     (if arg_url a = ''bad'' then Inl ValueError
      else if arg_url a = ''stop'' then Inl StopIteration
      else Inr \<lparr>result_url = arg_url a, html = Some ''<html></html>'',
                extracted_blocks = [arg_extraction_strategy a],
                chunked_segments = [arg_chunking_strategy a],
                success = (arg_url a \<noteq> ''down'')\<rparr>)"

definition example_env :: "string env" where
  "example_env =
     \<lparr>modules = [extraction_module \<mapsto> example_extraction, chunking_module \<mapsto> example_chunking],
      crawler_run = example_run\<rparr>"

text \<open>The request that carries only its URLs; every other field has its default.\<close>

definition default_request :: "string list \<Rightarrow> crawl_request" where
  "default_request us =
     \<lparr>urls = us, include_raw_html = Some False, bypass_cache = False, extract_blocks = True,
      word_count_threshold = Some 5, extraction_strategy = Some ''NoExtractionStrategy'',
      extraction_strategy_args = Some Map.empty, chunking_strategy = Some ''RegexChunking'',
      chunking_strategy_args = Some Map.empty, css_selector = None, verbose = Some True\<rparr>"

definition idle :: server_state where
  "idle = \<lparr>current_requests = 0\<rparr>"

section \<open>Facts about resolution and gathering\<close>

lemma import_strategy_try_trace:
  "import_strategy_try e m c kw = (res, tr) \<Longrightarrow>
     tr = [] \<or> (\<exists>cn md cl. c = Some cn \<and> modules e m = Some md \<and> md cn = Some cl
                 \<and> res = cl kw \<and> tr = [EvConstruct m cn kw])"
  by (auto simp: import_strategy_try_def split: option.splits)

lemma import_strategy_trace:
  "import_strategy e m c kw = (res, tr) \<Longrightarrow>
     tr = [] \<or> (\<exists>cn. c = Some cn \<and> tr = [EvConstruct m cn kw])"
proof -
  assume a: "import_strategy e m c kw = (res, tr)"
  obtain res0 tr0 where b: "import_strategy_try e m c kw = (res0, tr0)"
    by (cases "import_strategy_try e m c kw")
  from a b have "tr = tr0"
    by (auto simp: import_strategy_def split: sum.splits if_splits)
  with import_strategy_try_trace [OF b] show ?thesis by auto
qed

lemma call_import_strategy_trace:
  "call_import_strategy e m c kw = (res, tr) \<Longrightarrow>
     tr = [] \<or> (\<exists>cn. c = Some cn \<and> tr = [EvConstruct m cn kw])"
  by (auto simp: call_import_strategy_def dest: import_strategy_trace split: if_splits)

lemma import_strategy_Inr:
  "import_strategy e m c kw = (Inr h, tr) \<Longrightarrow>
     \<exists>cn md cl. c = Some cn \<and> modules e m = Some md \<and> md cn = Some cl \<and> cl kw = Inr h
        \<and> tr = [EvConstruct m cn kw]"
  by (auto simp: import_strategy_def import_strategy_try_def
      split: option.splits sum.splits if_splits)

lemma call_import_strategy_Inr:
  "call_import_strategy e m c kw = (Inr h, tr) \<Longrightarrow>
     \<exists>cn md cl. c = Some cn \<and> modules e m = Some md \<and> md cn = Some cl \<and> cl kw = Inr h
        \<and> tr = [EvConstruct m cn kw]"
  by (auto simp: call_import_strategy_def dest: import_strategy_Inr split: if_splits)

lemma first_exception_Some:
  "first_exception is outs = Some x \<Longrightarrow> Inl x \<in> set outs \<and> \<not> is_stop_iteration x"
  by (induction "is") (auto split: if_splits sum.splits simp: in_set_conv_nth)

lemma first_exception_None:
  "first_exception is outs = None \<Longrightarrow> i \<in> set is \<Longrightarrow> i < length outs \<Longrightarrow>
     (\<exists>y. outs ! i = Inr y) \<or> (\<exists>x. outs ! i = Inl x \<and> is_stop_iteration x)"
  by (induction "is") (auto split: if_splits sum.splits)

lemma first_exception_only_stops:
  "\<forall>x. Inl x \<in> set outs \<longrightarrow> is_stop_iteration x \<Longrightarrow> first_exception is outs = None"
  by (induction "is") (auto split: sum.splits dest: nth_mem)


lemma all_Inr_map: "\<not> list_ex isl outs \<Longrightarrow> map Inr (results_of outs) = outs"
proof (induction outs)
  case Nil
  then show ?case by simp
next
  case (Cons a outs)
  then show ?case by (cases a) simp_all
qed

lemma list_ex_isl: "list_ex isl outs \<longleftrightarrow> (\<exists>x. Inl x \<in> set outs)"
proof (induction outs)
  case Nil
  then show ?case by simp
next
  case (Cons a outs)
  then show ?case by (cases a) auto
qed

lemma gather_Inr:
  "gather sched outs = Some (Inr rs) \<Longrightarrow> outs = map Inr rs"
  by (auto simp: gather_def split: option.splits if_splits dest: all_Inr_map)

lemma gather_Inl:
  "gather sched outs = Some (Inl x) \<Longrightarrow> Inl x \<in> set outs \<and> \<not> is_stop_iteration x"
  by (auto simp: gather_def split: option.splits if_splits dest: first_exception_Some)

lemma gather_None:
  assumes "gather sched outs = None"
  shows "(\<exists>x. Inl x \<in> set outs) \<and> (\<forall>x. Inl x \<in> set outs \<longrightarrow> is_stop_iteration x)"
proof -
  from assms have n: "first_exception (sched @ [0..<length outs]) outs = None"
    and ex: "list_ex isl outs"
    by (auto simp: gather_def split: option.splits if_splits)
  have "is_stop_iteration x" if "Inl x \<in> set outs" for x
  proof -
    from that obtain i where i: "i < length outs" and oi: "outs ! i = Inl x"
      by (auto simp: in_set_conv_nth)
    with first_exception_None [OF n, of i] show ?thesis by auto
  qed
  with ex show ?thesis by (simp add: list_ex_isl)
qed

lemma gather_only_stops:
  "Inl x \<in> set outs \<Longrightarrow> \<forall>x. Inl x \<in> set outs \<longrightarrow> is_stop_iteration x \<Longrightarrow>
     gather sched outs = None"
  by (auto simp: gather_def first_exception_only_stops list_ex_isl)





section \<open>Facts about traces and jobs\<close>

lemma submitted_jobs_append:
  "submitted_jobs (xs @ ys) = submitted_jobs xs @ submitted_jobs ys"
  by (induction xs rule: submitted_jobs.induct) simp_all

lemma constructed_append:
  "constructed (xs @ ys) = constructed xs @ constructed ys"
  by (induction xs rule: constructed.induct) simp_all

lemma submitted_jobs_submits: "submitted_jobs (map (\<lambda>(i, a). EvSubmit i a) js) = js"
  by (induction js) auto

lemma constructed_submits: "constructed (map (\<lambda>(i, a). EvSubmit i a) js) = []"
  by (induction js) auto

lemma counter_events_submits:
  "filter is_incr (map (\<lambda>(i, a). EvSubmit i a) js) = []"
  "filter is_decr (map (\<lambda>(i, a). EvSubmit i a) js) = []"
  by (induction js) auto

lemma call_import_strategy_submitted:
  "call_import_strategy e m c kw = (res, t) \<Longrightarrow> submitted_jobs t = []"
  by (auto dest: call_import_strategy_trace)

lemma call_import_strategy_counter_events:
  "call_import_strategy e m c kw = (res, t) \<Longrightarrow> filter is_incr t = [] \<and> filter is_decr t = []"
  by (auto dest: call_import_strategy_trace)

lemma call_import_strategy_constructed:
  "call_import_strategy e m c kw = (res, t) \<Longrightarrow>
     constructed t = [] \<or> (\<exists>cn. c = Some cn \<and> constructed t = [(m, cn, kw)])"
  by (auto dest: call_import_strategy_trace)

lemma call_import_strategy_Inr_constructed:
  "call_import_strategy e m c kw = (Inr h, t) \<Longrightarrow>
     \<exists>cn. c = Some cn \<and> constructed t = [(m, cn, kw)] \<and> registered e m cn"
  by (auto dest!: call_import_strategy_Inr simp: registered_def)

lemma job_args_request_args:
  "job_args (r\<lparr>extraction_strategy_args := x, chunking_strategy_args := y\<rparr>) = job_args r"
  by (intro ext) (simp add: job_args_def)

lemma jobs_request_args:
  "jobs (r\<lparr>extraction_strategy_args := x, chunking_strategy_args := y\<rparr>) es cs = jobs r es cs"
  by (simp add: jobs_def job_args_request_args)

lemma dispatch_request_args:
  "dispatch e sched (r\<lparr>extraction_strategy_args := x, chunking_strategy_args := y\<rparr>) es cs
     = dispatch e sched r es cs"
  by (simp add: dispatch_def job_outcomes_def jobs_request_args split: option.splits sum.splits)

lemma length_jobs: "length (jobs r es cs) = length (urls r)"
  by (simp add: jobs_def)

lemma nth_jobs: "i < length (urls r) \<Longrightarrow> jobs r es cs ! i = (i, job_args r es cs (urls r ! i))"
  by (simp add: jobs_def nth_enumerate_eq)


lemma length_job_outcomes: "length (job_outcomes e r es cs) = length (urls r)"
  by (simp add: job_outcomes_def length_jobs)

lemma job_outcomes_jobs:
  "job_outcomes e r es cs = map (\<lambda>(i, a). crawler_run e i a) (jobs r es cs)"
  by (simp add: job_outcomes_def)

lemma nth_job_outcomes:
  "i < length (urls r) \<Longrightarrow>
     job_outcomes e r es cs ! i = crawler_run e i (job_args r es cs (urls r ! i))"
  by (simp add: job_outcomes_def length_jobs nth_jobs)

lemma job_outcome_raised:
  "Inl x \<in> set (job_outcomes e r es cs) \<longleftrightarrow>
     (\<exists>i < length (urls r). crawler_run e i (job_args r es cs (urls r ! i)) = Inl x)"
proof
  assume "Inl x \<in> set (job_outcomes e r es cs)"
  then obtain i where "i < length (job_outcomes e r es cs)" and "job_outcomes e r es cs ! i = Inl x"
    by (auto simp: in_set_conv_nth)
  then show "\<exists>i < length (urls r). crawler_run e i (job_args r es cs (urls r ! i)) = Inl x"
    by (auto simp: length_job_outcomes nth_job_outcomes)
next
  assume "\<exists>i < length (urls r). crawler_run e i (job_args r es cs (urls r ! i)) = Inl x"
  then obtain i where i: "i < length (urls r)"
    and "crawler_run e i (job_args r es cs (urls r ! i)) = Inl x" by blast
  then have "job_outcomes e r es cs ! i = Inl x" by (simp add: nth_job_outcomes)
  with i show "Inl x \<in> set (job_outcomes e r es cs)"
    by (metis length_job_outcomes nth_mem)
qed

lemma length_strip_html: "length (strip_html f results) = length results"
  by (simp add: strip_html_def)

lemma nth_strip_html:
  "i < length results \<Longrightarrow>
     strip_html f results ! i = (if f = Some True then results ! i else (results ! i)\<lparr>html := None\<rparr>)"
  by (simp add: strip_html_def)

section \<open>Facts about the dispatcher\<close>

lemma dispatch_Inr:
  "fst (dispatch e sched r es cs) = Some (Inr reply) \<Longrightarrow>
     \<exists>results. job_outcomes e r es cs = map Inr results
        \<and> reply = strip_html (include_raw_html r) results"
  by (auto simp: dispatch_def split: option.splits sum.splits dest: gather_Inr)


lemma dispatch_Inl:
  "fst (dispatch e sched r es cs) = Some (Inl x) \<Longrightarrow>
     Inl x \<in> set (job_outcomes e r es cs) \<and> \<not> is_stop_iteration x"
  by (auto simp: dispatch_def split: option.splits sum.splits dest: gather_Inl)

lemma dispatch_None:
  "fst (dispatch e sched r es cs) = None \<Longrightarrow>
     (\<exists>x. Inl x \<in> set (job_outcomes e r es cs))
     \<and> (\<forall>x. Inl x \<in> set (job_outcomes e r es cs) \<longrightarrow> is_stop_iteration x)"
  by (auto simp: dispatch_def split: option.splits sum.splits dest: gather_None)

lemma dispatch_only_stops:
  "Inl x \<in> set (job_outcomes e r es cs) \<Longrightarrow>
   \<forall>x. Inl x \<in> set (job_outcomes e r es cs) \<longrightarrow> is_stop_iteration x \<Longrightarrow>
     fst (dispatch e sched r es cs) = None"
  by (simp add: dispatch_def gather_only_stops)



lemma leave_coroutine_dispatch:
  "fst (dispatch e sched r es cs) = Some out \<Longrightarrow> leave_coroutine out = out"
  by (cases out) (auto simp: leave_coroutine_def dest: dispatch_Inl)

lemma leave_coroutine_simps:
  "leave_coroutine (Inr v) = Inr v"
  "leave_coroutine (Inl (HTTPException c d)) = Inl (HTTPException c d)"
  "leave_coroutine (Inl TypeError) = Inl TypeError"
  "\<not> is_stop_iteration x \<Longrightarrow> leave_coroutine (Inl x) = Inl x"
  "is_stop_iteration x \<Longrightarrow> leave_coroutine (Inl x) = Inl RuntimeError"
  by (simp_all add: leave_coroutine_def TypeError_def)

section \<open>Paths through the handler\<close>

lemma crawl_body_no_extraction_args:
  "extraction_strategy_args r = None \<Longrightarrow> crawl_body e sched r = (Some (Inl TypeError), r, [])"
  by (simp add: crawl_body_def set_verbose_def)

lemma crawl_body_no_chunking_args:
  "extraction_strategy_args r = Some ea \<Longrightarrow> chunking_strategy_args r = None \<Longrightarrow>
     crawl_body e sched r =
       (Some (Inl TypeError),
        r\<lparr>extraction_strategy_args := Some (ea(''verbose'' \<mapsto> PyBool True))\<rparr>, [])"
  by (simp add: crawl_body_def set_verbose_def)

lemma resolve_and_dispatch_request_args:
  "resolve_and_dispatch e sched (r\<lparr>extraction_strategy_args := x, chunking_strategy_args := y\<rparr>) ea ca
     = resolve_and_dispatch e sched r ea ca"
  by (simp add: resolve_and_dispatch_def dispatch_request_args split: prod.splits sum.splits)

lemma crawl_body_args:
  "extraction_strategy_args r = Some ea \<Longrightarrow> chunking_strategy_args r = Some ca \<Longrightarrow>
     crawl_body e sched r =
       (fst (resolve_and_dispatch e sched r (ea(''verbose'' \<mapsto> PyBool True))
               (ca(''verbose'' \<mapsto> PyBool True))),
        r\<lparr>extraction_strategy_args := Some (ea(''verbose'' \<mapsto> PyBool True)),
          chunking_strategy_args := Some (ca(''verbose'' \<mapsto> PyBool True))\<rparr>,
        snd (resolve_and_dispatch e sched r (ea(''verbose'' \<mapsto> PyBool True))
               (ca(''verbose'' \<mapsto> PyBool True))))"
  by (simp add: crawl_body_def set_verbose_def Let_def resolve_and_dispatch_request_args
      split: prod.splits)

lemma resolve_and_dispatch_extraction_failed:
  "call_import_strategy e extraction_module (extraction_strategy r) ea = (Inl x, t1) \<Longrightarrow>
     resolve_and_dispatch e sched r ea ca = (Some (Inl x), t1)"
  by (simp add: resolve_and_dispatch_def)

lemma resolve_and_dispatch_chunking_failed:
  "call_import_strategy e extraction_module (extraction_strategy r) ea = (Inr es, t1) \<Longrightarrow>
   call_import_strategy e chunking_module (chunking_strategy r) ca = (Inl x, t2) \<Longrightarrow>
     resolve_and_dispatch e sched r ea ca = (Some (Inl x), t1 @ t2)"
  by (simp add: resolve_and_dispatch_def)

lemma resolve_and_dispatch_dispatched:
  "call_import_strategy e extraction_module (extraction_strategy r) ea = (Inr es, t1) \<Longrightarrow>
   call_import_strategy e chunking_module (chunking_strategy r) ca = (Inr cs, t2) \<Longrightarrow>
     resolve_and_dispatch e sched r ea ca =
       (fst (dispatch e sched r es cs),
        t1 @ t2 @ map (\<lambda>(i, a). EvSubmit i a) (jobs r es cs))"
  by (simp add: resolve_and_dispatch_def dispatch_def split: prod.splits)

lemma crawl_urls_rejected:
  "current_requests s \<ge> MAX_CONCURRENT_REQUESTS \<Longrightarrow>
     crawl_urls e sched s r =
       (Some (Inl (HTTPException 429 ''Too many requests - please try again later.'')), r, s, [])"
  by (simp add: crawl_urls_def try_admit_def leave_coroutine_def)

lemma crawl_urls_admitted:
  "current_requests s < MAX_CONCURRENT_REQUESTS \<Longrightarrow>
     crawl_urls e sched s r =
       (case crawl_body e sched r of
          (None, r', tr) \<Rightarrow>
            (None, r', s\<lparr>current_requests := current_requests s + 1\<rparr>, [EvIncr] @ tr)
        | (Some out, r', tr) \<Rightarrow>
            (Some (leave_coroutine out), r', s, [EvIncr] @ tr @ [EvDecr]))"
  by (simp add: crawl_urls_def try_admit_def release_def split: prod.splits option.splits)

text \<open>
  What the handler does once it is admitted with both args dictionaries, by the outcome of
  the two resolutions.
\<close>

lemma crawl_urls_extraction_failed:
  assumes "current_requests s < MAX_CONCURRENT_REQUESTS"
      and "extraction_strategy_args r = Some ea" and "chunking_strategy_args r = Some ca"
      and "call_import_strategy e extraction_module (extraction_strategy r)
             (ea(''verbose'' \<mapsto> PyBool True)) = (Inl x, t1)"
  shows "crawl_urls e sched s r =
     (Some (leave_coroutine (Inl x)),
      r\<lparr>extraction_strategy_args := Some (ea(''verbose'' \<mapsto> PyBool True)),
        chunking_strategy_args := Some (ca(''verbose'' \<mapsto> PyBool True))\<rparr>,
      s, [EvIncr] @ t1 @ [EvDecr])"
  using assms
  by (simp add: crawl_urls_admitted crawl_body_args resolve_and_dispatch_extraction_failed)

lemma crawl_urls_chunking_failed:
  assumes "current_requests s < MAX_CONCURRENT_REQUESTS"
      and "extraction_strategy_args r = Some ea" and "chunking_strategy_args r = Some ca"
      and "call_import_strategy e extraction_module (extraction_strategy r)
             (ea(''verbose'' \<mapsto> PyBool True)) = (Inr es, t1)"
      and "call_import_strategy e chunking_module (chunking_strategy r)
             (ca(''verbose'' \<mapsto> PyBool True)) = (Inl x, t2)"
  shows "crawl_urls e sched s r =
     (Some (leave_coroutine (Inl x)),
      r\<lparr>extraction_strategy_args := Some (ea(''verbose'' \<mapsto> PyBool True)),
        chunking_strategy_args := Some (ca(''verbose'' \<mapsto> PyBool True))\<rparr>,
      s, [EvIncr] @ t1 @ t2 @ [EvDecr])"
  using assms
  by (simp add: crawl_urls_admitted crawl_body_args resolve_and_dispatch_chunking_failed)

lemma crawl_urls_dispatched:
  assumes "current_requests s < MAX_CONCURRENT_REQUESTS"
      and "extraction_strategy_args r = Some ea" and "chunking_strategy_args r = Some ca"
      and "call_import_strategy e extraction_module (extraction_strategy r)
             (ea(''verbose'' \<mapsto> PyBool True)) = (Inr es, t1)"
      and "call_import_strategy e chunking_module (chunking_strategy r)
             (ca(''verbose'' \<mapsto> PyBool True)) = (Inr cs, t2)"
  shows "crawl_urls e sched s r =
     (case fst (dispatch e sched r es cs) of
        None \<Rightarrow>
          (None,
           r\<lparr>extraction_strategy_args := Some (ea(''verbose'' \<mapsto> PyBool True)),
             chunking_strategy_args := Some (ca(''verbose'' \<mapsto> PyBool True))\<rparr>,
           s\<lparr>current_requests := current_requests s + 1\<rparr>,
           [EvIncr] @ t1 @ t2 @ map (\<lambda>(i, a). EvSubmit i a) (jobs r es cs))
      | Some out \<Rightarrow>
          (Some out,
           r\<lparr>extraction_strategy_args := Some (ea(''verbose'' \<mapsto> PyBool True)),
             chunking_strategy_args := Some (ca(''verbose'' \<mapsto> PyBool True))\<rparr>,
           s,
           [EvIncr] @ t1 @ t2 @ map (\<lambda>(i, a). EvSubmit i a) (jobs r es cs) @ [EvDecr]))"
  using assms
  by (auto simp: crawl_urls_admitted crawl_body_args resolve_and_dispatch_dispatched
      leave_coroutine_dispatch split: option.splits)

text \<open>The seven ways through the handler, each with its outcome, request, state and trace.\<close>

lemma crawl_urls_paths:
  assumes "crawl_urls e sched s r = (out, r', s', tr)"
  obtains (rejected)
      "MAX_CONCURRENT_REQUESTS \<le> current_requests s"
      "out = Some (Inl (HTTPException 429 ''Too many requests - please try again later.''))"
      "r' = r" "s' = s" "tr = []"
  | (no_extraction_args)
      "current_requests s < MAX_CONCURRENT_REQUESTS" "extraction_strategy_args r = None"
      "out = Some (Inl TypeError)" "r' = r" "s' = s" "tr = [EvIncr, EvDecr]"
  | (no_chunking_args) ea where
      "current_requests s < MAX_CONCURRENT_REQUESTS" "extraction_strategy_args r = Some ea"
      "chunking_strategy_args r = None" "out = Some (Inl TypeError)"
      "r' = r\<lparr>extraction_strategy_args := Some (ea(''verbose'' \<mapsto> PyBool True))\<rparr>"
      "s' = s" "tr = [EvIncr, EvDecr]"
  | (extraction_failed) ea ca x t1 where
      "current_requests s < MAX_CONCURRENT_REQUESTS"
      "extraction_strategy_args r = Some ea" "chunking_strategy_args r = Some ca"
      "call_import_strategy e extraction_module (extraction_strategy r)
         (ea(''verbose'' \<mapsto> PyBool True)) = (Inl x, t1)"
      "out = Some (leave_coroutine (Inl x))"
      "r' = r\<lparr>extraction_strategy_args := Some (ea(''verbose'' \<mapsto> PyBool True)),
                chunking_strategy_args := Some (ca(''verbose'' \<mapsto> PyBool True))\<rparr>"
      "s' = s" "tr = [EvIncr] @ t1 @ [EvDecr]"
  | (chunking_failed) ea ca es t1 x t2 where
      "current_requests s < MAX_CONCURRENT_REQUESTS"
      "extraction_strategy_args r = Some ea" "chunking_strategy_args r = Some ca"
      "call_import_strategy e extraction_module (extraction_strategy r)
         (ea(''verbose'' \<mapsto> PyBool True)) = (Inr es, t1)"
      "call_import_strategy e chunking_module (chunking_strategy r)
         (ca(''verbose'' \<mapsto> PyBool True)) = (Inl x, t2)"
      "out = Some (leave_coroutine (Inl x))"
      "r' = r\<lparr>extraction_strategy_args := Some (ea(''verbose'' \<mapsto> PyBool True)),
                chunking_strategy_args := Some (ca(''verbose'' \<mapsto> PyBool True))\<rparr>"
      "s' = s" "tr = [EvIncr] @ t1 @ t2 @ [EvDecr]"
  | (returned) ea ca es t1 cs t2 out0 where
      "current_requests s < MAX_CONCURRENT_REQUESTS"
      "extraction_strategy_args r = Some ea" "chunking_strategy_args r = Some ca"
      "call_import_strategy e extraction_module (extraction_strategy r)
         (ea(''verbose'' \<mapsto> PyBool True)) = (Inr es, t1)"
      "call_import_strategy e chunking_module (chunking_strategy r)
         (ca(''verbose'' \<mapsto> PyBool True)) = (Inr cs, t2)"
      "fst (dispatch e sched r es cs) = Some out0" "out = Some out0"
      "r' = r\<lparr>extraction_strategy_args := Some (ea(''verbose'' \<mapsto> PyBool True)),
                chunking_strategy_args := Some (ca(''verbose'' \<mapsto> PyBool True))\<rparr>"
      "s' = s"
      "tr = [EvIncr] @ t1 @ t2 @ map (\<lambda>(i, a). EvSubmit i a) (jobs r es cs) @ [EvDecr]"
  | (never_returns) ea ca es t1 cs t2 where
      "current_requests s < MAX_CONCURRENT_REQUESTS"
      "extraction_strategy_args r = Some ea" "chunking_strategy_args r = Some ca"
      "call_import_strategy e extraction_module (extraction_strategy r)
         (ea(''verbose'' \<mapsto> PyBool True)) = (Inr es, t1)"
      "call_import_strategy e chunking_module (chunking_strategy r)
         (ca(''verbose'' \<mapsto> PyBool True)) = (Inr cs, t2)"
      "fst (dispatch e sched r es cs) = None" "out = None"
      "r' = r\<lparr>extraction_strategy_args := Some (ea(''verbose'' \<mapsto> PyBool True)),
                chunking_strategy_args := Some (ca(''verbose'' \<mapsto> PyBool True))\<rparr>"
      "s' = s\<lparr>current_requests := current_requests s + 1\<rparr>"
      "tr = [EvIncr] @ t1 @ t2 @ map (\<lambda>(i, a). EvSubmit i a) (jobs r es cs)"
proof (cases "current_requests s < MAX_CONCURRENT_REQUESTS")
  case False
  with assms have "out = Some (Inl (HTTPException 429 ''Too many requests - please try again later.''))"
    and "r' = r" and "s' = s" and "tr = []"
    by (simp_all add: crawl_urls_rejected)
  with False show ?thesis by (intro rejected) simp_all
next
  case adm: True
  show ?thesis
  proof (cases "extraction_strategy_args r")
    case None
    with adm assms have "out = Some (Inl TypeError)" and "r' = r" and "s' = s"
      and "tr = [EvIncr, EvDecr]"
      by (simp_all add: crawl_urls_admitted crawl_body_no_extraction_args leave_coroutine_simps)
    with adm None show ?thesis by (intro no_extraction_args) simp_all
  next
    case ea: (Some ea)
    show ?thesis
    proof (cases "chunking_strategy_args r")
      case None
      with adm ea assms have "out = Some (Inl TypeError)"
        and "r' = r\<lparr>extraction_strategy_args := Some (ea(''verbose'' \<mapsto> PyBool True))\<rparr>"
        and "s' = s" and "tr = [EvIncr, EvDecr]"
        by (simp_all add: crawl_urls_admitted crawl_body_no_chunking_args leave_coroutine_simps)
      with adm ea None show ?thesis by (intro no_chunking_args [of ea]) simp_all
    next
      case ca: (Some ca)
      let ?ea = "ea(''verbose'' \<mapsto> PyBool True)" and ?ca = "ca(''verbose'' \<mapsto> PyBool True)"
      obtain res1 t1
        where c1: "call_import_strategy e extraction_module (extraction_strategy r) ?ea = (res1, t1)"
        by (cases "call_import_strategy e extraction_module (extraction_strategy r) ?ea")
      show ?thesis
      proof (cases res1)
        case (Inl x)
        with c1 have c1': "call_import_strategy e extraction_module (extraction_strategy r) ?ea
            = (Inl x, t1)" by simp
        from assms crawl_urls_extraction_failed [OF adm ea ca c1', of sched]
        show ?thesis using adm ea ca c1' by (intro extraction_failed [of ea ca x t1]) simp_all
      next
        case (Inr es)
        with c1 have c1': "call_import_strategy e extraction_module (extraction_strategy r) ?ea
            = (Inr es, t1)" by simp
        obtain res2 t2
          where c2: "call_import_strategy e chunking_module (chunking_strategy r) ?ca = (res2, t2)"
          by (cases "call_import_strategy e chunking_module (chunking_strategy r) ?ca")
        show ?thesis
        proof (cases res2)
          case (Inl x)
          with c2 have c2': "call_import_strategy e chunking_module (chunking_strategy r) ?ca
              = (Inl x, t2)" by simp
          from assms crawl_urls_chunking_failed [OF adm ea ca c1' c2', of sched]
          show ?thesis using adm ea ca c1' c2'
            by (intro chunking_failed [of ea ca es t1 x t2]) simp_all
        next
          case (Inr cs)
          with c2 have c2': "call_import_strategy e chunking_module (chunking_strategy r) ?ca
              = (Inr cs, t2)" by simp
          note d = crawl_urls_dispatched [OF adm ea ca c1' c2', of sched]
          show ?thesis
          proof (cases "fst (dispatch e sched r es cs)")
            case None
            with assms d show ?thesis using adm ea ca c1' c2'
              by (intro never_returns [of ea ca es t1 cs t2]) simp_all
          next
            case (Some out0)
            with assms d show ?thesis using adm ea ca c1' c2'
              by (intro returned [of ea ca es t1 cs t2 out0]) simp_all
          qed
        qed
      qed
    qed
  qed
qed

section \<open>The example installation\<close>

lemma idle_admitted: "current_requests idle < MAX_CONCURRENT_REQUESTS"
  by (simp add: idle_def MAX_CONCURRENT_REQUESTS_def)

lemma example_modules:
  "modules example_env extraction_module = Some example_extraction"
  "modules example_env chunking_module = Some example_chunking"
  by (simp_all add: example_env_def extraction_module_def chunking_module_def)

lemma example_extraction_resolves:
  "call_import_strategy example_env extraction_module (Some ''NoExtractionStrategy'')
     (Map.empty(''verbose'' \<mapsto> PyBool True))
   = (Inr ''no-extraction'',
      [EvConstruct extraction_module ''NoExtractionStrategy'' (Map.empty(''verbose'' \<mapsto> PyBool True))])"
  by (simp add: call_import_strategy_def import_strategy_def import_strategy_try_def
      example_modules example_extraction_def)

lemma example_chunking_resolves:
  "call_import_strategy example_env chunking_module (Some ''RegexChunking'')
     (Map.empty(''verbose'' \<mapsto> PyBool True))
   = (Inr ''regex'',
      [EvConstruct chunking_module ''RegexChunking'' (Map.empty(''verbose'' \<mapsto> PyBool True))])"
  by (simp add: call_import_strategy_def import_strategy_def import_strategy_try_def
      example_modules example_chunking_def)

lemma default_request_fields:
  "urls (default_request us) = us"
  "extraction_strategy (default_request us) = Some ''NoExtractionStrategy''"
  "extraction_strategy_args (default_request us) = Some Map.empty"
  "chunking_strategy (default_request us) = Some ''RegexChunking''"
  "chunking_strategy_args (default_request us) = Some Map.empty"
  "include_raw_html (default_request us) = Some False"
  by (simp_all add: default_request_def)

lemma example_job:
  "crawler_run example_env i (job_args r es cs u) = example_run i (job_args r es cs u)"
  "arg_url (job_args r es cs u) = u"
  by (simp_all add: example_env_def job_args_def)

section \<open>Admission\<close>

text \<open>
  Whenever the handler of an admitted request returns, with a reply or with any
  exception, it has raised the counter as its first effect and lowered it exactly once,
  as its last, and the counter has the value it had before admission.
\<close>

lemma slot_released_when_handler_returns:
  assumes "current_requests s < MAX_CONCURRENT_REQUESTS"
      and "crawl_urls e sched s r = (Some out, r', s', tr)"
  shows "current_requests s' = current_requests s
       \<and> filter is_incr tr = [EvIncr] \<and> filter is_decr tr = [EvDecr]
       \<and> hd tr = EvIncr \<and> last tr = EvDecr"
  using assms(2)
proof (cases rule: crawl_urls_paths)
  case rejected
  with assms(1) show ?thesis by simp
next
  case no_extraction_args
  then show ?thesis by simp
next
  case (no_chunking_args ea)
  then show ?thesis by simp
next
  case (extraction_failed ea ca x t1)
  with call_import_strategy_counter_events [OF extraction_failed(4)] show ?thesis by simp
next
  case (chunking_failed ea ca es t1 x t2)
  with call_import_strategy_counter_events [OF chunking_failed(4)]
    call_import_strategy_counter_events [OF chunking_failed(5)] show ?thesis by simp
next
  case (returned ea ca es t1 cs t2 out0)
  with call_import_strategy_counter_events [OF returned(4)]
    call_import_strategy_counter_events [OF returned(5)] show ?thesis
    by (simp add: counter_events_submits)
next
  case (never_returns ea ca es t1 cs t2)
  then show ?thesis by simp
qed

text \<open>
  The handler of an admitted request fails to return only in this way: both strategies
  were constructed, every job was handed out, some job raised, and every job that raised
  raised StopIteration.
\<close>

lemma handler_never_returns_only_on_stop_iteration:
  assumes "crawl_urls e sched s r = (None, r', s', tr)"
  shows "\<exists>es cs. submitted_jobs tr = jobs r es cs
       \<and> (\<exists>i < length (urls r). \<exists>x.
             crawler_run e i (job_args r es cs (urls r ! i)) = Inl x)
       \<and> (\<forall>i < length (urls r). \<forall>x.
             crawler_run e i (job_args r es cs (urls r ! i)) = Inl x \<longrightarrow> is_stop_iteration x)"
  using assms
proof (cases rule: crawl_urls_paths)
  case (never_returns ea ca es t1 cs t2)
  have "submitted_jobs tr = jobs r es cs"
    using never_returns(10) call_import_strategy_submitted [OF never_returns(4)]
      call_import_strategy_submitted [OF never_returns(5)]
    by (simp add: submitted_jobs_append submitted_jobs_submits)
  with dispatch_None [OF never_returns(6)] show ?thesis
    by (auto simp: job_outcome_raised)
qed simp_all

text \<open>
  Claim C1, on the path where the handler breaks it. The claim asks that an admitted
  request lowers the counter exactly once on every job failure. When both strategies are
  constructed, some job raises StopIteration and no job raises anything else, the await of
  line 132 never ends: the handler never returns, the \<open>finally\<close> clause is never
  reached, every job has been handed out, and the counter is never lowered and stays one
  above its value before admission.
\<close>

theorem stop_iteration_job_holds_slot:
  assumes "current_requests s < MAX_CONCURRENT_REQUESTS"
      and "extraction_strategy_args r = Some ea" and "chunking_strategy_args r = Some ca"
      and "call_import_strategy e extraction_module (extraction_strategy r)
             (ea(''verbose'' \<mapsto> PyBool True)) = (Inr es, t1)"
      and "call_import_strategy e chunking_module (chunking_strategy r)
             (ca(''verbose'' \<mapsto> PyBool True)) = (Inr cs, t2)"
      and "i < length (urls r)"
      and "crawler_run e i (job_args r es cs (urls r ! i)) = Inl x"
      and "\<forall>j < length (urls r). \<forall>y.
             crawler_run e j (job_args r es cs (urls r ! j)) = Inl y \<longrightarrow> is_stop_iteration y"
      and "crawl_urls e sched s r = (out, r', s', tr)"
  shows "out = None
       \<and> current_requests s' = current_requests s + 1
       \<and> filter is_incr tr = [EvIncr] \<and> filter is_decr tr = []
       \<and> submitted_jobs tr = jobs r es cs"
proof -
  have "Inl x \<in> set (job_outcomes e r es cs)"
    using assms(6,7) by (auto simp: job_outcome_raised)
  moreover have "\<forall>y. Inl y \<in> set (job_outcomes e r es cs) \<longrightarrow> is_stop_iteration y"
    using assms(8) by (auto simp: job_outcome_raised)
  ultimately have "fst (dispatch e sched r es cs) = None"
    by (rule dispatch_only_stops)
  with assms(9) crawl_urls_dispatched [OF assms(1,2,3,4,5), of sched]
    call_import_strategy_counter_events [OF assms(4)]
    call_import_strategy_counter_events [OF assms(5)]
    call_import_strategy_submitted [OF assms(4)]
    call_import_strategy_submitted [OF assms(5)]
  show ?thesis
    by (auto simp: counter_events_submits submitted_jobs_append submitted_jobs_submits)
qed

theorem stop_iteration_job_holds_slot_witness:
  "current_requests idle < MAX_CONCURRENT_REQUESTS
   \<and> crawler_run example_env 1
        (job_args (default_request [''a'', ''stop'']) ''no-extraction'' ''regex'' ''stop'')
       = Inl StopIteration
   \<and> fst (crawl_urls example_env [] idle (default_request [''a'', ''stop''])) = None
   \<and> current_requests (fst (snd (snd
        (crawl_urls example_env [] idle (default_request [''a'', ''stop''])))))
       = current_requests idle + 1
   \<and> filter is_decr (snd (snd (snd
        (crawl_urls example_env [] idle (default_request [''a'', ''stop''])))))
       = []"
proof -
  let ?r = "default_request [''a'', ''stop'']"
  let ?X = "crawl_urls example_env [] idle ?r"
  have run: "?X = (fst ?X, fst (snd ?X), fst (snd (snd ?X)), snd (snd (snd ?X)))"
    by simp
  have ext: "call_import_strategy example_env extraction_module (extraction_strategy ?r)
      (Map.empty(''verbose'' \<mapsto> PyBool True))
    = (Inr ''no-extraction'',
       [EvConstruct extraction_module ''NoExtractionStrategy'' (Map.empty(''verbose'' \<mapsto> PyBool True))])"
    by (simp add: default_request_fields example_extraction_resolves)
  have chk: "call_import_strategy example_env chunking_module (chunking_strategy ?r)
      (Map.empty(''verbose'' \<mapsto> PyBool True))
    = (Inr ''regex'',
       [EvConstruct chunking_module ''RegexChunking'' (Map.empty(''verbose'' \<mapsto> PyBool True))])"
    by (simp add: default_request_fields example_chunking_resolves)
  have i: "1 < length (urls ?r)"
    by (simp add: default_request_fields)
  have raises: "crawler_run example_env 1 (job_args ?r ''no-extraction'' ''regex'' (urls ?r ! 1))
      = Inl StopIteration"
    by (simp add: default_request_fields example_job example_run_def)
  have only: "\<forall>j < length (urls ?r). \<forall>y.
      crawler_run example_env j (job_args ?r ''no-extraction'' ''regex'' (urls ?r ! j)) = Inl y
        \<longrightarrow> is_stop_iteration y"
    by (auto simp: default_request_fields example_job example_run_def less_Suc_eq
        StopIteration_def)
  note hang = stop_iteration_job_holds_slot
    [OF idle_admitted default_request_fields(3) default_request_fields(5) ext chk i raises only run]
  have "crawler_run example_env 1 (job_args ?r ''no-extraction'' ''regex'' ''stop'')
      = Inl StopIteration"
    using raises by (simp add: default_request_fields)
  with idle_admitted hang show ?thesis by (simp only: simp_thms)
qed

text \<open>
  Claim C2. At or above the capacity of 10 the request is rejected with status 429 (the
  outcome of the handler is that exception, a 4xx status), the counter and the request are
  as before and nothing else has happened. Below the capacity the check and the increment
  are the one step \<open>try_admit\<close>, which adds one to the counter, and the handler
  goes on with the increment as its first effect. Among concurrent handlers an admission
  is a single step of the system, so no other handler acts between the check and the
  increment.
\<close>

theorem admission_check:
  "(current_requests s \<ge> MAX_CONCURRENT_REQUESTS \<longrightarrow>
       try_admit s = (Inl (HTTPException 429 ''Too many requests - please try again later.''), s)
     \<and> crawl_urls e sched s r =
         (Some (Inl (HTTPException 429 ''Too many requests - please try again later.'')), r, s, []))
   \<and> (current_requests s < MAX_CONCURRENT_REQUESTS \<longrightarrow>
       try_admit s = (Inr (), s\<lparr>current_requests := current_requests s + 1\<rparr>)
     \<and> (\<exists>tr. snd (snd (snd (crawl_urls e sched s r))) = EvIncr # tr))
   \<and> (i < length (phases sy) \<and> phases sy ! i = Waiting \<longrightarrow>
       sys_step sy (Admit i) =
         Some \<lparr>globals = snd (try_admit (globals sy)),
               phases = (phases sy)
                 [i := if MAX_CONCURRENT_REQUESTS \<le> current_requests (globals sy)
                       then Rejected else Running]\<rparr>)
   \<and> MAX_CONCURRENT_REQUESTS = 10"
  by (auto simp: crawl_urls_rejected crawl_urls_admitted try_admit_def MAX_CONCURRENT_REQUESTS_def
      split: prod.splits option.splits)

theorem admission_check_witness:
  "current_requests \<lparr>current_requests = 10\<rparr> \<ge> MAX_CONCURRENT_REQUESTS
   \<and> fst (crawl_urls example_env [] \<lparr>current_requests = 10\<rparr> (default_request [''a'']))
       = Some (Inl (HTTPException 429 ''Too many requests - please try again later.''))
   \<and> current_requests idle < MAX_CONCURRENT_REQUESTS
   \<and> try_admit idle = (Inr (), \<lparr>current_requests = 1\<rparr>)
   \<and> 0 < length (phases (init 1)) \<and> phases (init 1) ! 0 = Waiting
   \<and> sys_step (init 1) (Admit 0)
       = Some \<lparr>globals = \<lparr>current_requests = 1\<rparr>, phases = [Running]\<rparr>"
  using admission_check [of "\<lparr>current_requests = 10\<rparr>" example_env "[]" "default_request [''a'']"]
    admission_check [of idle example_env "[]" "default_request [''a'']" 0 "init 1"]
  by (simp add: idle_def init_def)

section \<open>The counter under interleaving\<close>

lemma filter_update_enter:
  "i < length xs \<Longrightarrow> \<not> P (xs ! i) \<Longrightarrow> P v \<Longrightarrow>
     length (filter P (xs[i := v])) = Suc (length (filter P xs))"
proof (induction xs arbitrary: i)
  case Nil
  then show ?case by simp
next
  case (Cons x xs)
  then show ?case by (cases i) auto
qed

lemma filter_update_leave:
  "i < length xs \<Longrightarrow> P (xs ! i) \<Longrightarrow> \<not> P v \<Longrightarrow>
     Suc (length (filter P (xs[i := v]))) = length (filter P xs)"
proof (induction xs arbitrary: i)
  case Nil
  then show ?case by simp
next
  case (Cons x xs)
  then show ?case by (cases i) auto
qed

lemma filter_update_same:
  "i < length xs \<Longrightarrow> \<not> P (xs ! i) \<Longrightarrow> \<not> P v \<Longrightarrow>
     length (filter P (xs[i := v])) = length (filter P xs)"
proof (induction xs arbitrary: i)
  case Nil
  then show ?case by simp
next
  case (Cons x xs)
  then show ?case by (cases i) auto
qed

lemma counter_ok_init: "counter_ok (init n)"
  by (simp add: counter_ok_def init_def in_flight_def MAX_CONCURRENT_REQUESTS_def)

lemma counter_ok_step:
  assumes "counter_ok sy" and "sys_step sy a = Some sy'"
  shows "counter_ok sy'"
proof (cases a)
  case (Admit i)
  with assms(2) have i: "i < length (phases sy)" and w: "phases sy ! i = Waiting"
    by (auto split: if_splits)
  show ?thesis
  proof (cases "current_requests (globals sy) \<ge> MAX_CONCURRENT_REQUESTS")
    case True
    with Admit assms(2) i w
    have sy': "sy' = \<lparr>globals = globals sy, phases = (phases sy)[i := Rejected]\<rparr>"
      by (simp add: try_admit_def)
    have "length (filter (\<lambda>p. p = Running) ((phases sy)[i := Rejected]))
            = length (filter (\<lambda>p. p = Running) (phases sy))"
      using i w by (intro filter_update_same) simp_all
    with assms(1) show ?thesis by (simp add: sy' counter_ok_def in_flight_def)
  next
    case False
    with Admit assms(2) i w
    have sy': "sy' = \<lparr>globals = (globals sy)\<lparr>current_requests := current_requests (globals sy) + 1\<rparr>,
                      phases = (phases sy)[i := Running]\<rparr>"
      by (simp add: try_admit_def)
    have "length (filter (\<lambda>p. p = Running) ((phases sy)[i := Running]))
            = Suc (length (filter (\<lambda>p. p = Running) (phases sy)))"
      using i w by (intro filter_update_enter) simp_all
    with assms(1) False show ?thesis by (simp add: sy' counter_ok_def in_flight_def)
  qed
next
  case (Release i)
  with assms(2) have i: "i < length (phases sy)" and w: "phases sy ! i = Running"
    by (auto split: if_splits)
  with Release assms(2)
  have sy': "sy' = \<lparr>globals = release (globals sy), phases = (phases sy)[i := Finished]\<rparr>"
    by simp
  have "Suc (length (filter (\<lambda>p. p = Running) ((phases sy)[i := Finished])))
          = length (filter (\<lambda>p. p = Running) (phases sy))"
    using i w by (intro filter_update_leave) simp_all
  with assms(1) show ?thesis by (auto simp: sy' counter_ok_def in_flight_def release_def)
qed

lemma counter_ok_exec:
  "counter_ok sy \<Longrightarrow> exec sy as = Some sy' \<Longrightarrow> counter_ok sy'"
proof (induction as arbitrary: sy)
  case Nil
  then show ?case by simp
next
  case (Cons a as)
  then show ?case by (auto split: option.splits dest: counter_ok_step)
qed

text \<open>
  Claim C3. From the counter at zero, after any sequence of admission and release steps of
  any number of requests (a release is a step of a handler that is inside its
  \<open>try\<close>), the counter is at least zero and at most the capacity; it is the
  number of requests inside their \<open>try\<close>.
\<close>

theorem counter_within_capacity:
  assumes "exec (init n) as = Some sy"
  shows "0 \<le> current_requests (globals sy)
       \<and> current_requests (globals sy) \<le> MAX_CONCURRENT_REQUESTS
       \<and> current_requests (globals sy) = int (in_flight sy)"
  using counter_ok_exec [OF counter_ok_init assms] by (simp add: counter_ok_def)

theorem counter_within_capacity_witness:
  "exec (init 12) (map Admit [0..<12] @ [Release 3, Release 7])
     = Some \<lparr>globals = \<lparr>current_requests = 8\<rparr>,
             phases = [Running, Running, Running, Finished, Running, Running, Running, Finished,
                       Running, Running, Rejected, Rejected]\<rparr>
   \<and> 0 \<le> (8::int) \<and> (8::int) \<le> MAX_CONCURRENT_REQUESTS"
proof -
  have h: "exec (init 12) (map Admit [0..<12] @ [Release 3, Release 7])
     = Some \<lparr>globals = \<lparr>current_requests = 8\<rparr>,
             phases = [Running, Running, Running, Finished, Running, Running, Running, Finished,
                       Running, Running, Rejected, Rejected]\<rparr>"
    by code_simp
  show ?thesis using h counter_within_capacity [OF h] by simp
qed

section \<open>Jobs, outcomes and their order\<close>








text \<open>
  Claim C6. In a reply, the results are those the engine returned for the jobs, in order.
  With \<open>include_raw_html\<close> true the reply is exactly these results. Otherwise every
  result of the reply (successful or not) has \<open>html\<close> cleared and every other field
  as the engine produced it.
\<close>

theorem raw_html_shaping:
  assumes "crawl_urls e sched s r = (Some (Inr reply), r', s', tr)"
  shows "\<exists>results. map (\<lambda>(i, a). crawler_run e i a) (submitted_jobs tr) = map Inr results
       \<and> length reply = length results
       \<and> (include_raw_html r = Some True \<longrightarrow> reply = results)
       \<and> (include_raw_html r \<noteq> Some True \<longrightarrow>
            (\<forall>i < length results.
                html (reply ! i) = None
              \<and> extracted_blocks (reply ! i) = extracted_blocks (results ! i)
              \<and> chunked_segments (reply ! i) = chunked_segments (results ! i)
              \<and> success (reply ! i) = success (results ! i)
              \<and> result_url (reply ! i) = result_url (results ! i)))"
  using assms
proof (cases rule: crawl_urls_paths)
  case (returned ea ca es t1 cs t2 out0)
  have sj: "submitted_jobs tr = jobs r es cs"
    using returned(10) call_import_strategy_submitted [OF returned(4)]
      call_import_strategy_submitted [OF returned(5)]
    by (simp add: submitted_jobs_append submitted_jobs_submits)
  from returned(6,7) obtain results
    where outs: "job_outcomes e r es cs = map Inr results"
      and rep: "reply = strip_html (include_raw_html r) results"
    by (auto dest: dispatch_Inr)
  have "map (\<lambda>(i, a). crawler_run e i a) (submitted_jobs tr) = map Inr results"
    using outs by (simp add: sj job_outcomes_jobs)
  moreover have "length reply = length results" by (simp add: rep length_strip_html)
  moreover have "include_raw_html r = Some True \<longrightarrow> reply = results"
    by (simp add: rep strip_html_def)
  moreover have "include_raw_html r \<noteq> Some True \<longrightarrow>
            (\<forall>i < length results.
                html (reply ! i) = None
              \<and> extracted_blocks (reply ! i) = extracted_blocks (results ! i)
              \<and> chunked_segments (reply ! i) = chunked_segments (results ! i)
              \<and> success (reply ! i) = success (results ! i)
              \<and> result_url (reply ! i) = result_url (results ! i))"
    by (simp add: rep nth_strip_html)
  ultimately show ?thesis by blast
next
  case (extraction_failed ea ca x t1)
  then show ?thesis by (simp add: leave_coroutine_def split: if_splits)
next
  case (chunking_failed ea ca es t1 x t2)
  then show ?thesis by (simp add: leave_coroutine_def split: if_splits)
qed simp_all

theorem raw_html_shaping_witness:
  "fst (crawl_urls example_env [] idle (default_request [''a'']))
     = Some (Inr [\<lparr>result_url = ''a'', html = None, extracted_blocks = [''no-extraction''],
              chunked_segments = [''regex''], success = True\<rparr>])
   \<and> include_raw_html (default_request [''a'']) \<noteq> Some True
   \<and> (\<exists>results.
         map (\<lambda>(i, a). crawler_run example_env i a)
           (submitted_jobs (snd (snd (snd (crawl_urls example_env [] idle (default_request [''a'']))))))
           = map Inr results
       \<and> length results = 1
       \<and> extracted_blocks (results ! 0) = [''no-extraction''])"
proof -
  let ?X = "crawl_urls example_env [] idle (default_request [''a''])"
  let ?R = "[\<lparr>result_url = ''a'', html = None, extracted_blocks = [''no-extraction''],
              chunked_segments = [''regex''], success = True\<rparr>]"
  have h: "fst ?X = Some (Inr ?R)"
    by code_simp
  have run: "?X = (Some (Inr ?R), fst (snd ?X), fst (snd (snd ?X)), snd (snd (snd ?X)))"
    by (rule prod_eqI) (simp_all add: h)
  have f: "include_raw_html (default_request [''a'']) \<noteq> Some True"
    by (simp add: default_request_def)
  from raw_html_shaping [OF run] obtain results where
    m: "map (\<lambda>(i, a). crawler_run example_env i a) (submitted_jobs (snd (snd (snd ?X)))) = map Inr results"
    and l: "length ?R = length results"
    and i: "include_raw_html (default_request [''a'']) \<noteq> Some True \<longrightarrow>
        (\<forall>i < length results.
                html (?R ! i) = None
              \<and> extracted_blocks (?R ! i) = extracted_blocks (results ! i)
              \<and> chunked_segments (?R ! i) = chunked_segments (results ! i)
              \<and> success (?R ! i) = success (results ! i)
              \<and> result_url (?R ! i) = result_url (results ! i))"
    by blast
  from l have l1: "length results = 1" by simp
  then have pos: "0 < length results" by simp
  from i f pos have "extracted_blocks (?R ! 0) = extracted_blocks (results ! 0)" by blast
  then have "extracted_blocks (results ! 0) = [''no-extraction'']" by simp
  with m l1 h f show ?thesis by blast
qed

section \<open>Strategy resolution failures\<close>


lemma call_constructor_raises:
  assumes "kw ''module_name'' = None" and "kw ''class_name'' = None"
      and "modules e m = Some md" and "md c = Some cl" and "cl kw = Inl x"
  shows "call_import_strategy e m (Some c) kw =
     (Inl (if is_import_error x then HTTPException 400 (''Module '' @ m @ '' not found.'')
           else if is_attribute_error x
             then HTTPException 400 (''Class '' @ c @ '' not found in '' @ m @ ''.'')
           else x),
      [EvConstruct m c kw])"
  using assms
  by (simp add: call_import_strategy_def import_strategy_def import_strategy_try_def str_opt_def)

lemma leave_coroutine_reported:
  "leave_coroutine
     (Inl (if is_import_error x then HTTPException 400 d1
           else if is_attribute_error x then HTTPException 400 d2 else x))
   = Inl (if is_import_error x then HTTPException 400 d1
          else if is_attribute_error x then HTTPException 400 d2
          else if is_stop_iteration x then RuntimeError else x)"
  by (simp add: leave_coroutine_def)





text \<open>
  Claim C8, as the code has it. When the class of a registered name raises on the
  keyword arguments it is given, no job is handed out, the counter is released, and the
  request fails: with status 400 and the module-not-found text when the exception is an
  instance of ImportError (ModuleNotFoundError included), with status 400 and the
  class-not-found text when it is an instance of AttributeError, with a RuntimeError when
  it is a StopIteration, and in every other case (a TypeError for a keyword the class does
  not take, a ValueError, ...) with that very exception, unchanged.
\<close>

theorem constructor_error_propagates:
  assumes "current_requests s < MAX_CONCURRENT_REQUESTS"
      and "extraction_strategy_args r = Some ea" and "chunking_strategy_args r = Some ca"
      and "ea ''module_name'' = None" and "ea ''class_name'' = None"
      and "extraction_strategy r = Some en"
      and "(m = extraction_module \<and> c = en \<and> kw = ea(''verbose'' \<mapsto> PyBool True))
         \<or> ((\<exists>es t1. call_import_strategy e extraction_module (Some en)
                        (ea(''verbose'' \<mapsto> PyBool True)) = (Inr es, t1))
            \<and> ca ''module_name'' = None \<and> ca ''class_name'' = None
            \<and> chunking_strategy r = Some c
            \<and> m = chunking_module \<and> kw = ca(''verbose'' \<mapsto> PyBool True))"
      and "modules e m = Some md" and "md c = Some cl" and "cl kw = Inl x"
      and "crawl_urls e sched s r = (out, r', s', tr)"
  shows "out = Some (Inl
           (if is_import_error x then HTTPException 400 (''Module '' @ m @ '' not found.'')
            else if is_attribute_error x
              then HTTPException 400 (''Class '' @ c @ '' not found in '' @ m @ ''.'')
            else if is_stop_iteration x then RuntimeError
            else x))
       \<and> submitted_jobs tr = []
       \<and> current_requests s' = current_requests s"
  using assms(7)
proof (elim disjE conjE exE)
  assume m: "m = extraction_module" and c: "c = en" and kw: "kw = ea(''verbose'' \<mapsto> PyBool True)"
  have call: "call_import_strategy e extraction_module (extraction_strategy r)
        (ea(''verbose'' \<mapsto> PyBool True)) =
     (Inl (if is_import_error x then HTTPException 400 (''Module '' @ m @ '' not found.'')
           else if is_attribute_error x
             then HTTPException 400 (''Class '' @ c @ '' not found in '' @ m @ ''.'')
           else x),
      [EvConstruct m c kw])"
    using call_constructor_raises [of kw e m md c cl x] assms(4,5,6,8,9,10) m c kw by simp
  from assms(11) show ?thesis
  proof (cases rule: crawl_urls_paths)
    case (extraction_failed ea' ca' y t1)
    with assms(2) call have "y = (if is_import_error x
           then HTTPException 400 (''Module '' @ m @ '' not found.'')
           else if is_attribute_error x
             then HTTPException 400 (''Class '' @ c @ '' not found in '' @ m @ ''.'')
           else x)" and "t1 = [EvConstruct m c kw]"
      by simp_all
    with extraction_failed show ?thesis by (simp only: leave_coroutine_reported) simp
  qed (use assms(1,2,3) call in simp_all)
next
  fix es t1
  assume ext: "call_import_strategy e extraction_module (Some en)
                 (ea(''verbose'' \<mapsto> PyBool True)) = (Inr es, t1)"
    and ca: "ca ''module_name'' = None" "ca ''class_name'' = None"
    and cn: "chunking_strategy r = Some c"
    and m: "m = chunking_module" and kw: "kw = ca(''verbose'' \<mapsto> PyBool True)"
  have call: "call_import_strategy e chunking_module (chunking_strategy r)
        (ca(''verbose'' \<mapsto> PyBool True)) =
     (Inl (if is_import_error x then HTTPException 400 (''Module '' @ m @ '' not found.'')
           else if is_attribute_error x
             then HTTPException 400 (''Class '' @ c @ '' not found in '' @ m @ ''.'')
           else x),
      [EvConstruct m c kw])"
    using call_constructor_raises [of kw e m md c cl x] assms(8,9,10) ca cn m kw by simp
  from assms(11) show ?thesis
  proof (cases rule: crawl_urls_paths)
    case (chunking_failed ea' ca' es' t1' y t2)
    with assms(2,3,6) ext call have "y = (if is_import_error x
           then HTTPException 400 (''Module '' @ m @ '' not found.'')
           else if is_attribute_error x
             then HTTPException 400 (''Class '' @ c @ '' not found in '' @ m @ ''.'')
           else x)" and "t2 = [EvConstruct m c kw]" and "t1' = t1"
      by simp_all
    with chunking_failed call_import_strategy_submitted [OF ext] show ?thesis
      by (simp only: leave_coroutine_reported) (simp add: submitted_jobs_append)
  qed (use assms(1,2,3,6) ext call in simp_all)
qed

theorem constructor_error_propagates_witness:
  "example_extraction ''TopicExtractionStrategy''
     = Some (\<lambda>kw. if kw ''top_k'' = None then Inr ''topic'' else Inl TypeError)
   \<and> fst (crawl_urls example_env [] idle ((default_request [''a''])
        \<lparr>extraction_strategy := Some ''TopicExtractionStrategy'',
         extraction_strategy_args := Some [''top_k'' \<mapsto> PyInt 3]\<rparr>))
     = Some (Inl TypeError)
   \<and> submitted_jobs (snd (snd (snd (crawl_urls example_env [] idle ((default_request [''a''])
        \<lparr>extraction_strategy := Some ''TopicExtractionStrategy'',
         extraction_strategy_args := Some [''top_k'' \<mapsto> PyInt 3]\<rparr>))))) = []
   \<and> example_extraction ''CosineStrategy'' = Some (\<lambda>kw. Inl ModuleNotFoundError)
   \<and> fst (crawl_urls example_env [] idle ((default_request [''a''])
        \<lparr>extraction_strategy := Some ''CosineStrategy''\<rparr>))
     = Some (Inl (HTTPException 400 (''Module '' @ extraction_module @ '' not found.'')))
   \<and> current_requests (fst (snd (snd (crawl_urls example_env [] idle ((default_request [''a''])
        \<lparr>extraction_strategy := Some ''CosineStrategy''\<rparr>)))))
     = current_requests idle"
proof -
  let ?r = "(default_request [''a''])
        \<lparr>extraction_strategy := Some ''TopicExtractionStrategy'',
         extraction_strategy_args := Some [''top_k'' \<mapsto> PyInt 3]\<rparr>"
  let ?X = "crawl_urls example_env [] idle ?r"
  let ?cl = "\<lambda>kw :: kwargs. if kw ''top_k'' = None then Inr ''topic'' else (Inl TypeError :: exn + string)"
  let ?kw = "[''top_k'' \<mapsto> PyInt 3, ''verbose'' \<mapsto> PyBool True]"
  let ?q = "(default_request [''a''])\<lparr>extraction_strategy := Some ''CosineStrategy''\<rparr>"
  let ?Y = "crawl_urls example_env [] idle ?q"
  let ?cq = "\<lambda>kw :: kwargs. (Inl ModuleNotFoundError :: exn + string)"
  let ?kq = "[''verbose'' \<mapsto> PyBool True]"
  have run: "?X = (fst ?X, fst (snd ?X), fst (snd (snd ?X)), snd (snd (snd ?X)))"
    by simp
  have run': "?Y = (fst ?Y, fst (snd ?Y), fst (snd (snd ?Y)), snd (snd (snd ?Y)))"
    by simp
  have cl: "example_extraction ''TopicExtractionStrategy'' = Some ?cl"
    by (simp add: example_extraction_def)
  have cq: "example_extraction ''CosineStrategy'' = Some ?cq"
    by (simp add: example_extraction_def)
  have raises: "?cl ?kw = Inl TypeError"
    by simp
  have raises': "?cq ?kq = Inl ModuleNotFoundError"
    by simp
  have which: "(extraction_module = extraction_module
        \<and> ''TopicExtractionStrategy'' = ''TopicExtractionStrategy''
        \<and> ?kw = [''top_k'' \<mapsto> PyInt 3](''verbose'' \<mapsto> PyBool True))
      \<or> ((\<exists>es t1. call_import_strategy example_env extraction_module (Some ''TopicExtractionStrategy'')
                     ([''top_k'' \<mapsto> PyInt 3](''verbose'' \<mapsto> PyBool True)) = (Inr es, t1))
         \<and> Map.empty ''module_name'' = (None :: pyval option)
         \<and> Map.empty ''class_name'' = (None :: pyval option)
         \<and> chunking_strategy ?r = Some ''TopicExtractionStrategy''
         \<and> extraction_module = chunking_module
         \<and> ?kw = Map.empty(''verbose'' \<mapsto> PyBool True))"
    by simp
  have which': "(extraction_module = extraction_module
        \<and> ''CosineStrategy'' = ''CosineStrategy''
        \<and> ?kq = Map.empty(''verbose'' \<mapsto> PyBool True))
      \<or> ((\<exists>es t1. call_import_strategy example_env extraction_module (Some ''CosineStrategy'')
                     (Map.empty(''verbose'' \<mapsto> PyBool True)) = (Inr es, t1))
         \<and> Map.empty ''module_name'' = (None :: pyval option)
         \<and> Map.empty ''class_name'' = (None :: pyval option)
         \<and> chunking_strategy ?q = Some ''CosineStrategy''
         \<and> extraction_module = chunking_module
         \<and> ?kq = Map.empty(''verbose'' \<mapsto> PyBool True))"
    by simp
  have a: "fst ?X = Some (Inl TypeError) \<and> submitted_jobs (snd (snd (snd ?X))) = []"
    using constructor_error_propagates
      [of idle ?r "[''top_k'' \<mapsto> PyInt 3]" Map.empty "''TopicExtractionStrategy''"
          extraction_module "''TopicExtractionStrategy''" ?kw example_env example_extraction ?cl
          TypeError,
       OF idle_admitted _ _ _ _ _ which example_modules(1) cl raises run]
    by (simp add: default_request_def TypeError_def)
  have b: "fst ?Y = Some (Inl (HTTPException 400 (''Module '' @ extraction_module @ '' not found.'')))
      \<and> current_requests (fst (snd (snd ?Y))) = current_requests idle"
    using constructor_error_propagates
      [of idle ?q Map.empty Map.empty "''CosineStrategy''"
          extraction_module "''CosineStrategy''" ?kq example_env example_extraction ?cq
          ModuleNotFoundError,
       OF idle_admitted _ _ _ _ _ which' example_modules(1) cq raises' run']
    by (simp add: default_request_def ModuleNotFoundError_def)
  from cl cq a b show ?thesis by (simp only: simp_thms)
qed

text \<open>
  The claim as stated fails: a registered class that does not take the keyword
  \<open>top_k\<close> raises TypeError, and the outcome of the request is that TypeError,
  not an HTTPException with status 400.
\<close>

theorem constructor_error_propagates_counterexample:
  "registered example_env extraction_module ''TopicExtractionStrategy''
   \<and> current_requests idle < MAX_CONCURRENT_REQUESTS
   \<and> fst (crawl_urls example_env [] idle ((default_request [''a''])
        \<lparr>extraction_strategy := Some ''TopicExtractionStrategy'',
         extraction_strategy_args := Some [''top_k'' \<mapsto> PyInt 3]\<rparr>))
     = Some (Inl TypeError)"
  by code_simp

section \<open>The request object and the verbose keyword\<close>

text \<open>
  Claim C9, as the code has it. Processing leaves every field of the request as the caller
  supplied it, except that lines 108 and 109 store \<open>True\<close> under the key
  \<open>verbose\<close> in the extraction args and in the chunking args (the second only when
  the first field is a dictionary); every other key of both dictionaries is unchanged. A
  rejected request is not touched.
\<close>

theorem request_after_processing:
  assumes "crawl_urls e sched s r = (out, r', s', tr)"
  shows "r' =
      (if MAX_CONCURRENT_REQUESTS \<le> current_requests s then r
       else case extraction_strategy_args r of
              None \<Rightarrow> r
            | Some ea \<Rightarrow>
                (case chunking_strategy_args r of
                   None \<Rightarrow> r\<lparr>extraction_strategy_args := Some (ea(''verbose'' \<mapsto> PyBool True))\<rparr>
                 | Some ca \<Rightarrow>
                     r\<lparr>extraction_strategy_args := Some (ea(''verbose'' \<mapsto> PyBool True)),
                       chunking_strategy_args := Some (ca(''verbose'' \<mapsto> PyBool True))\<rparr>))
     \<and> urls r' = urls r \<and> include_raw_html r' = include_raw_html r
     \<and> bypass_cache r' = bypass_cache r \<and> extract_blocks r' = extract_blocks r
     \<and> word_count_threshold r' = word_count_threshold r
     \<and> extraction_strategy r' = extraction_strategy r
     \<and> chunking_strategy r' = chunking_strategy r
     \<and> css_selector r' = css_selector r \<and> verbose r' = verbose r
     \<and> (\<forall>k d d'. k \<noteq> ''verbose'' \<longrightarrow>
           (extraction_strategy_args r = Some d \<longrightarrow> extraction_strategy_args r' = Some d'
              \<longrightarrow> d' k = d k)
         \<and> (chunking_strategy_args r = Some d \<longrightarrow> chunking_strategy_args r' = Some d'
              \<longrightarrow> d' k = d k))"
  using assms
  by (cases rule: crawl_urls_paths) auto

theorem request_after_processing_witness:
  "fst (snd (crawl_urls example_env [] idle (default_request [''a''])))
     = (default_request [''a''])
         \<lparr>extraction_strategy_args := Some [''verbose'' \<mapsto> PyBool True],
          chunking_strategy_args := Some [''verbose'' \<mapsto> PyBool True]\<rparr>
   \<and> urls (fst (snd (crawl_urls example_env [] idle (default_request [''a''])))) = [''a'']"
proof -
  let ?X = "crawl_urls example_env [] idle (default_request [''a''])"
  have run: "?X = (fst ?X, fst (snd ?X), fst (snd (snd ?X)), snd (snd (snd ?X)))"
    by simp
  note after = request_after_processing [OF run]
  have "fst (snd ?X) = (default_request [''a''])
         \<lparr>extraction_strategy_args := Some [''verbose'' \<mapsto> PyBool True],
          chunking_strategy_args := Some [''verbose'' \<mapsto> PyBool True]\<rparr>"
    using after [THEN conjunct1]
    by (simp add: default_request_def idle_def MAX_CONCURRENT_REQUESTS_def)
  moreover have "urls (fst (snd ?X)) = [''a'']"
    using after [THEN conjunct2, THEN conjunct1] by (simp add: default_request_def)
  ultimately show ?thesis by (simp only: simp_thms)
qed

text \<open>
  The claim as stated fails: the default request arrives with empty extraction args and
  leaves with \<open>verbose\<close> set in them.
\<close>

theorem request_after_processing_counterexample:
  "the (extraction_strategy_args (default_request [''a''])) ''verbose'' = None
   \<and> the (extraction_strategy_args
          (fst (snd (crawl_urls example_env [] idle (default_request [''a''])))))
        ''verbose''
       = Some (PyBool True)
   \<and> fst (snd (crawl_urls example_env [] idle (default_request [''a''])))
       \<noteq> default_request [''a'']"
proof -
  let ?X = "crawl_urls example_env [] idle (default_request [''a''])"
  have before: "the (extraction_strategy_args (default_request [''a''])) ''verbose'' = None"
    by code_simp
  have after: "the (extraction_strategy_args (fst (snd ?X))) ''verbose'' = Some (PyBool True)"
    by code_simp
  from before after have "fst (snd ?X) \<noteq> default_request [''a'']"
    by (metis option.distinct(1))
  with before after show ?thesis by (simp only: simp_thms)
qed

text \<open>
  The behaviour of the handler does not depend on what a strategy class does when it is
  called without \<open>verbose\<close> being \<open>True\<close>.
\<close>

lemma import_strategy_try_replace_quiet:
  "kw ''verbose'' = Some (PyBool True) \<Longrightarrow>
     import_strategy_try (replace_quiet d e) m c kw = import_strategy_try e m c kw"
  by (auto simp: import_strategy_try_def replace_quiet_def split: option.splits)

lemma call_import_strategy_replace_quiet:
  "kw ''verbose'' = Some (PyBool True) \<Longrightarrow>
     call_import_strategy (replace_quiet d e) m c kw = call_import_strategy e m c kw"
  by (simp add: call_import_strategy_def import_strategy_def import_strategy_try_replace_quiet)

lemma dispatch_replace_quiet:
  "dispatch (replace_quiet d e) sched r es cs = dispatch e sched r es cs"
  by (simp add: dispatch_def job_outcomes_def replace_quiet_def)

lemma resolve_and_dispatch_replace_quiet:
  "ea ''verbose'' = Some (PyBool True) \<Longrightarrow> ca ''verbose'' = Some (PyBool True) \<Longrightarrow>
     resolve_and_dispatch (replace_quiet d e) sched r ea ca = resolve_and_dispatch e sched r ea ca"
  by (simp add: resolve_and_dispatch_def call_import_strategy_replace_quiet dispatch_replace_quiet
      split: prod.splits sum.splits)

lemma crawl_body_replace_quiet:
  "crawl_body (replace_quiet d e) sched r = crawl_body e sched r"
  by (simp add: crawl_body_def set_verbose_def Let_def resolve_and_dispatch_replace_quiet
      split: option.splits prod.splits sum.splits)

lemma crawl_urls_replace_quiet:
  "crawl_urls (replace_quiet d e) sched s r = crawl_urls e sched s r"
  by (simp add: crawl_urls_def crawl_body_replace_quiet split: prod.splits sum.splits)

text \<open>
  Claim C10. Every call of a strategy class that the handler makes passes the caller's
  args dictionary of that strategy with \<open>verbose\<close> set to \<open>True\<close>, whatever
  the caller stored under that key and whatever the request's own \<open>verbose\<close> field
  is. A request that yields a reply has made exactly these two calls, the extraction one
  first, and the strategy objects that its jobs carry are what the two registered classes
  return for these arguments. No call is made with any other value of \<open>verbose\<close>:
  outcome, request, counter and effects are the same whatever the classes would do when
  called without \<open>verbose\<close> being \<open>True\<close>.
\<close>

theorem strategies_constructed_verbose:
  assumes "crawl_urls e sched s r = (out, r', s', tr)"
  shows "(\<forall>(m, c, kw) \<in> set (constructed tr).
            kw ''verbose'' = Some (PyBool True)
          \<and> ((m = extraction_module \<and> extraction_strategy r = Some c
                \<and> (\<exists>ea. extraction_strategy_args r = Some ea
                      \<and> kw = ea(''verbose'' \<mapsto> PyBool True)))
             \<or> (m = chunking_module \<and> chunking_strategy r = Some c
                \<and> (\<exists>ca. chunking_strategy_args r = Some ca
                      \<and> kw = ca(''verbose'' \<mapsto> PyBool True)))))
       \<and> (\<forall>reply. out = Some (Inr reply) \<longrightarrow>
            (\<exists>en ea cn ca mE clE mC clC es cs.
                extraction_strategy r = Some en \<and> extraction_strategy_args r = Some ea
              \<and> chunking_strategy r = Some cn \<and> chunking_strategy_args r = Some ca
              \<and> modules e extraction_module = Some mE \<and> mE en = Some clE
              \<and> clE (ea(''verbose'' \<mapsto> PyBool True)) = Inr es
              \<and> modules e chunking_module = Some mC \<and> mC cn = Some clC
              \<and> clC (ca(''verbose'' \<mapsto> PyBool True)) = Inr cs
              \<and> constructed tr =
                  [(extraction_module, en, ea(''verbose'' \<mapsto> PyBool True)),
                   (chunking_module, cn, ca(''verbose'' \<mapsto> PyBool True))]
              \<and> submitted_jobs tr = jobs r es cs))
       \<and> (\<forall>d. crawl_urls (replace_quiet d e) sched s r = (out, r', s', tr))"
proof (intro conjI)
  show "\<forall>d. crawl_urls (replace_quiet d e) sched s r = (out, r', s', tr)"
    using assms by (simp add: crawl_urls_replace_quiet)
next
  from assms show "\<forall>(m, c, kw) \<in> set (constructed tr).
            kw ''verbose'' = Some (PyBool True)
          \<and> ((m = extraction_module \<and> extraction_strategy r = Some c
                \<and> (\<exists>ea. extraction_strategy_args r = Some ea
                      \<and> kw = ea(''verbose'' \<mapsto> PyBool True)))
             \<or> (m = chunking_module \<and> chunking_strategy r = Some c
                \<and> (\<exists>ca. chunking_strategy_args r = Some ca
                      \<and> kw = ca(''verbose'' \<mapsto> PyBool True))))"
  proof (cases rule: crawl_urls_paths)
    case rejected
    then show ?thesis by simp
  next
    case no_extraction_args
    then show ?thesis by simp
  next
    case (no_chunking_args ea)
    then show ?thesis by simp
  next
    case (extraction_failed ea ca x t1)
    from call_import_strategy_constructed [OF extraction_failed(4)] extraction_failed
    show ?thesis by (auto simp: constructed_append)
  next
    case (chunking_failed ea ca es t1 x t2)
    from call_import_strategy_Inr_constructed [OF chunking_failed(4)]
      call_import_strategy_constructed [OF chunking_failed(5)] chunking_failed
    show ?thesis by (auto simp: constructed_append)
  next
    case (returned ea ca es t1 cs t2 out0)
    from call_import_strategy_Inr_constructed [OF returned(4)]
      call_import_strategy_Inr_constructed [OF returned(5)] returned
    show ?thesis by (auto simp: constructed_append constructed_submits)
  next
    case (never_returns ea ca es t1 cs t2)
    from call_import_strategy_Inr_constructed [OF never_returns(4)]
      call_import_strategy_Inr_constructed [OF never_returns(5)] never_returns
    show ?thesis by (auto simp: constructed_append constructed_submits)
  qed
next
  from assms show "\<forall>reply. out = Some (Inr reply) \<longrightarrow>
            (\<exists>en ea cn ca mE clE mC clC es cs.
                extraction_strategy r = Some en \<and> extraction_strategy_args r = Some ea
              \<and> chunking_strategy r = Some cn \<and> chunking_strategy_args r = Some ca
              \<and> modules e extraction_module = Some mE \<and> mE en = Some clE
              \<and> clE (ea(''verbose'' \<mapsto> PyBool True)) = Inr es
              \<and> modules e chunking_module = Some mC \<and> mC cn = Some clC
              \<and> clC (ca(''verbose'' \<mapsto> PyBool True)) = Inr cs
              \<and> constructed tr =
                  [(extraction_module, en, ea(''verbose'' \<mapsto> PyBool True)),
                   (chunking_module, cn, ca(''verbose'' \<mapsto> PyBool True))]
              \<and> submitted_jobs tr = jobs r es cs)"
  proof (cases rule: crawl_urls_paths)
    case (returned ea ca es t1 cs t2 out0)
    from call_import_strategy_Inr [OF returned(4)] obtain en mE clE
      where e1: "extraction_strategy r = Some en" "modules e extraction_module = Some mE"
        "mE en = Some clE" "clE (ea(''verbose'' \<mapsto> PyBool True)) = Inr es"
        "t1 = [EvConstruct extraction_module en (ea(''verbose'' \<mapsto> PyBool True))]"
      by blast
    from call_import_strategy_Inr [OF returned(5)] obtain cn mC clC
      where e2: "chunking_strategy r = Some cn" "modules e chunking_module = Some mC"
        "mC cn = Some clC" "clC (ca(''verbose'' \<mapsto> PyBool True)) = Inr cs"
        "t2 = [EvConstruct chunking_module cn (ca(''verbose'' \<mapsto> PyBool True))]"
      by blast
    have "constructed tr =
                  [(extraction_module, en, ea(''verbose'' \<mapsto> PyBool True)),
                   (chunking_module, cn, ca(''verbose'' \<mapsto> PyBool True))]"
      and "submitted_jobs tr = jobs r es cs"
      using returned(10) e1(5) e2(5)
      by (simp_all add: constructed_append constructed_submits submitted_jobs_append
          submitted_jobs_submits)
    with e1(1-4) e2(1-4) returned(2,3) show ?thesis by blast
  next
    case (extraction_failed ea ca x t1)
    then show ?thesis by (simp add: leave_coroutine_def split: if_splits)
  next
    case (chunking_failed ea ca es t1 x t2)
    then show ?thesis by (simp add: leave_coroutine_def split: if_splits)
  qed simp_all
qed

theorem strategies_constructed_verbose_witness:
  "fst (crawl_urls example_env [] idle ((default_request [''a''])
        \<lparr>extraction_strategy_args := Some [''verbose'' \<mapsto> PyBool False], verbose := Some False\<rparr>))
     = Some (Inr [\<lparr>result_url = ''a'', html = None, extracted_blocks = [''no-extraction''],
              chunked_segments = [''regex''], success = True\<rparr>])
   \<and> constructed (snd (snd (snd (crawl_urls example_env [] idle ((default_request [''a''])
        \<lparr>extraction_strategy_args := Some [''verbose'' \<mapsto> PyBool False], verbose := Some False\<rparr>)))))
     = [(extraction_module, ''NoExtractionStrategy'',
           [''verbose'' \<mapsto> PyBool False, ''verbose'' \<mapsto> PyBool True]),
        (chunking_module, ''RegexChunking'', [''verbose'' \<mapsto> PyBool True])]
   \<and> fst (crawl_urls (replace_quiet (\<lambda>kw. Inl ValueError) example_env) [] idle
        ((default_request [''a''])
        \<lparr>extraction_strategy_args := Some [''verbose'' \<mapsto> PyBool False], verbose := Some False\<rparr>))
     = Some (Inr [\<lparr>result_url = ''a'', html = None, extracted_blocks = [''no-extraction''],
              chunked_segments = [''regex''], success = True\<rparr>])"
proof -
  let ?r = "(default_request [''a''])
        \<lparr>extraction_strategy_args := Some [''verbose'' \<mapsto> PyBool False], verbose := Some False\<rparr>"
  let ?X = "crawl_urls example_env [] idle ?r"
  let ?R = "[\<lparr>result_url = ''a'', html = None, extracted_blocks = [''no-extraction''],
              chunked_segments = [''regex''], success = True\<rparr>]"
  have run: "?X = (fst ?X, fst (snd ?X), fst (snd (snd ?X)), snd (snd (snd ?X)))"
    by simp
  have h: "fst ?X = Some (Inr ?R)"
    by code_simp
  note c10 = strategies_constructed_verbose [OF run]
  from c10 [THEN conjunct2, THEN conjunct1, THEN spec, THEN mp, OF h]
  obtain en ea cn ca where
    "extraction_strategy ?r = Some en" "extraction_strategy_args ?r = Some ea"
    "chunking_strategy ?r = Some cn" "chunking_strategy_args ?r = Some ca"
    and con: "constructed (snd (snd (snd ?X))) =
        [(extraction_module, en, ea(''verbose'' \<mapsto> PyBool True)),
         (chunking_module, cn, ca(''verbose'' \<mapsto> PyBool True))]"
    by blast
  then have "en = ''NoExtractionStrategy''" "ea = [''verbose'' \<mapsto> PyBool False]"
    "cn = ''RegexChunking''" "ca = Map.empty"
    by (simp_all add: default_request_def)
  with con have con': "constructed (snd (snd (snd ?X)))
     = [(extraction_module, ''NoExtractionStrategy'',
           [''verbose'' \<mapsto> PyBool False, ''verbose'' \<mapsto> PyBool True]),
        (chunking_module, ''RegexChunking'', [''verbose'' \<mapsto> PyBool True])]"
    by simp
  have "crawl_urls (replace_quiet (\<lambda>kw. Inl ValueError) example_env) [] idle ?r
      = (fst ?X, fst (snd ?X), fst (snd (snd ?X)), snd (snd (snd ?X)))"
    by (rule c10 [THEN conjunct2, THEN conjunct2, THEN spec])
  then have quiet: "fst (crawl_urls (replace_quiet (\<lambda>kw. Inl ValueError) example_env) [] idle ?r)
      = Some (Inr ?R)"
    by (simp only: fst_conv h)
  show ?thesis
    by (intro conjI) (rule h, rule con', rule quiet)
qed

end
